theory Spec2Isabelle
  imports Complex_Main
begin

unbundle bit_operations_syntax

section \<open>Data model of the GeoPackage tiled raster engine\<close>

text \<open>
  The embedding follows \<^verbatim>\<open>gdalgeopackagerasterband.cpp\<close>. One member function of
  \<^verbatim>\<open>GDALGPKGMBTilesLikePseudoDataset\<close> is one definition of the same name. The
  configuration of a dataset, which the functions only read, is the record
  \<open>gpkg_env\<close>; the members they write are the record \<open>gpkg_state\<close>. Calls that
  leave the translation unit (the image drivers, SQLite, the host's transaction
  interface and block cache) are fields of the environment or of a per-call
  \<open>outcome\<close> record, so that every return code the source tests is a branch here.
  The dataset is a main dataset: \<^verbatim>\<open>m_poParentDS\<close> is null, so \<^verbatim>\<open>poMainDS\<close> is the
  dataset itself.
\<close>

datatype CPLErr = CE_None | CE_Failure

datatype GDALDataType = GDT_Byte | GDT_Int16 | GDT_UInt16 | GDT_Float32

datatype GPKGTileFormat =
  GPKG_TF_PNG_JPEG | GPKG_TF_PNG | GPKG_TF_PNG8 | GPKG_TF_JPEG | GPKG_TF_WEBP
  | GPKG_TF_PNG_16BIT | GPKG_TF_TIFF_32BIT_FLOAT

text \<open>
  A \<^verbatim>\<open>double\<close> or \<^verbatim>\<open>float\<close>: a real number, an infinity or NaN. Arithmetic on
  finite values is exact (no rounding); \<open>feq\<close> is the \<^verbatim>\<open>==\<close> of C++, under which
  NaN equals nothing.
\<close>

datatype fval = Fin real | PInf | NInf | NaN

definition feq :: "fval \<Rightarrow> fval \<Rightarrow> bool" where
  "feq a b = (a \<noteq> NaN \<and> b \<noteq> NaN \<and> a = b)"

definition isnan :: "fval \<Rightarrow> bool" where
  "isnan a = (a = NaN)"

definition isinf :: "fval \<Rightarrow> bool" where
  "isinf a = (a = PInf \<or> a = NInf)"

text \<open>
  Pixel buffers are lists of samples. One list element stands for the
  \<^verbatim>\<open>m_nDTSize\<close> bytes of one sample, so every byte offset of the source is divided
  by \<^verbatim>\<open>m_nDTSize\<close> here, and \<^verbatim>\<open>nBandBlockSize\<close> counts samples. A pointer into a
  buffer is the suffix of the list that starts there.
\<close>

type_synonym buffer = "fval list"

type_synonym blob = "nat list"

text \<open>What \<^verbatim>\<open>GDALDataset::Open\<close> returns for a tile blob, as far as \<^verbatim>\<open>ReadTile\<close> looks at it.\<close>

record tile_ds =
  GetRasterXSize :: int
  GetRasterYSize :: int
  GetRasterCount :: int
  IsLossy :: bool

text \<open>A row of \<^verbatim>\<open>gpkg_2d_gridded_tile_ancillary\<close>, without its key columns.\<close>

record gridded_tile_ancillary =
  anc_scale :: real
  anc_offset :: real
  anc_min :: real
  anc_max :: real
  anc_mean :: real
  anc_std_dev :: real

text \<open>A row of the tile table: its \<^verbatim>\<open>id\<close> and its \<^verbatim>\<open>tile_data\<close>.\<close>

record tile_row =
  tile_id :: int
  tile_data :: blob

text \<open>
  The primary store behind \<^verbatim>\<open>IGetDB()\<close>: the tile table keyed by
  \<^verbatim>\<open>(zoom_level, tile_row, tile_column)\<close>, the ancillary table keyed by
  \<^verbatim>\<open>tpudt_id\<close>, and the next value of the autoincrement \<^verbatim>\<open>id\<close>.
\<close>

record main_db =
  tiles :: "(int \<times> int \<times> int) \<rightharpoonup> tile_row"
  ancillary :: "int \<rightharpoonup> gridded_tile_ancillary"
  next_id :: int

text \<open>A row of the \<^verbatim>\<open>partial_tiles\<close> table of the temporary database.\<close>

record partial_tile =
  pt_id :: int
  pt_zoom_level :: int
  pt_tile_column :: int
  pt_tile_row :: int
  pt_tile_data_band :: "buffer option list"
  pt_partial_flag :: int
  pt_age :: int

text \<open>The statements the source sends to the two databases, and the transaction calls.\<close>

datatype sql_stmt =
  SelectTile | SelectTileId | SelectAncillary | DeleteTileStmt | DeleteAncillary
  | InsertTile | InsertAncillary | SelectPartial | SelectPartialBand
  | SelectPartialCount | SelectPartialAll | UpdatePartialDead | SelectDeadSame
  | SelectDeadAny | InsertPartial | UpdatePartial | DeletePartial
  | UpdateAllPartialDead | DeleteDeadPartial | Vacuum | SelectAnyTile | SelectMiddleTile

datatype sqlite_rc = SQLITE_OK | SQLITE_BUSY | SQLITE_ERROR

text \<open>
  \<open>CommitTransaction\<close> is a call of \<^verbatim>\<open>ICommitTransaction\<close>; it is followed by
  \<open>CommitFailed\<close> when the call does not return \<^verbatim>\<open>OGRERR_NONE\<close>.
\<close>

datatype db_event =
  MainDB sql_stmt | TempDB sql_stmt | StartTransaction | CommitTransaction | CommitFailed

record CachedTileDesc =
  nRow :: int
  nCol :: int
  nIdxWithinTileData :: int
  abBandDirty :: "bool list"

text \<open>
  What the host attempts while a tile write is in progress. The block cache of the
  host wants to flush a dirty block of the dataset: its \<^verbatim>\<open>IWriteBlock\<close> stores into
  the slot descriptors and the cached tiles and calls \<^verbatim>\<open>WriteTile\<close>. Or \<^verbatim>\<open>WriteTile\<close> is
  called again directly. The last argument is what the host attempts during that
  inner call.
\<close>

datatype host_call =
  FlushDirtyBlock "CachedTileDesc list" buffer "host_call list"
  | is_CallWriteTile: CallWriteTile "host_call list"

text \<open>
  What a \<^verbatim>\<open>SELECT\<close> of \<^verbatim>\<open>GetColorTable\<close> finds: no row with a blob; a tile that the PNG
  driver opens with one band, with or without a colour table; a tile that the PNG
  driver does not open or that has several bands.
\<close>

datatype ct_probe = NoTileFound | TileColorTable bool | TileNotOneBandPNG

text \<open>
  What the calls outside the translation unit answer during one call of a member
  function. \<open>prepare_ok s\<close> tells whether \<^verbatim>\<open>SQLPrepareWithError\<close> succeeds for the
  statement \<open>s\<close>; \<open>step_rc s\<close> is \<open>SQLITE_OK\<close> when \<^verbatim>\<open>sqlite3_step\<close> runs the
  statement (it then returns \<^verbatim>\<open>SQLITE_ROW\<close> or \<^verbatim>\<open>SQLITE_DONE\<close> as the table
  dictates) and the error it reports otherwise. \<open>commit_ok\<close> is
  \<^verbatim>\<open>ICommitTransaction() == OGRERR_NONE\<close>, \<open>driver_found\<close> is
  \<^verbatim>\<open>GDALGetDriverByName(pszDriverName) != nullptr\<close>. \<open>tempdb_open_ok\<close> tells that
  \<^verbatim>\<open>sqlite3_open\<close> on the temporary database returns \<^verbatim>\<open>SQLITE_OK\<close>, and
  \<open>tempdb_open_handle\<close> that it leaves a non-null handle in \<^verbatim>\<open>m_hTempDB\<close>, which it can
  do when it fails. \<open>block_dirty b x y\<close> tells whether
  the host's block cache holds a dirty block \<open>(x, y)\<close> of band \<open>b\<close>. \<open>time_now\<close>,
  \<open>nFreeSpace\<close> and \<open>nTempSpace\<close> are \<^verbatim>\<open>time(nullptr)\<close>, \<^verbatim>\<open>VSIGetDiskFreeSpace\<close> and the
  size of the temporary database with its journal (\<open>None\<close> when \<^verbatim>\<open>VSIStatL\<close> fails).
  \<open>probe_ct i\<close> is what round \<open>i\<close> of the loop of \<^verbatim>\<open>GetColorTable\<close> finds, and
  \<open>host_calls\<close> is what the host attempts during a call of \<^verbatim>\<open>WriteTile\<close>.
\<close>

record outcome =
  prepare_ok :: "sql_stmt \<Rightarrow> bool"
  step_rc :: "sql_stmt \<Rightarrow> sqlite_rc"
  commit_ok :: bool
  driver_found :: bool
  tempdb_open_ok :: bool
  tempdb_open_handle :: bool
  block_dirty :: "nat \<Rightarrow> int \<Rightarrow> int \<Rightarrow> bool"
  time_now :: int
  nFreeSpace :: int
  nTempSpace :: "int option"
  probe_ct :: "nat \<Rightarrow> ct_probe"
  host_calls :: "host_call list"

definition exec_ok :: "outcome \<Rightarrow> sql_stmt \<Rightarrow> bool" where
  "exec_ok oc s = (prepare_ok oc s \<and> step_rc oc s = SQLITE_OK)"

record gpkg_env =
  IGetUpdate :: bool
  IGetRasterCount :: nat
  nBlockXSize :: nat
  nBlockYSize :: nat
  nRasterXSize :: int
  nRasterYSize :: int
  m_eDT :: GDALDataType
  m_eTF :: GPKGTileFormat
  bHasNoData :: bool
  dfNoDataValue :: fval
  m_dfOffset :: real
  m_dfScale :: real
  m_usGPKGNull :: int
  m_nZoomLevel :: int
  m_nTileMatrixWidth :: int
  m_nTileMatrixHeight :: int
  m_nShiftXTiles :: int
  m_nShiftYTiles :: int
  m_nShiftXPixelsMod :: nat
  m_nShiftYPixelsMod :: nat
  m_bForceTempDBCompaction :: bool
  GetRowFromIntoTopConvention :: "int \<Rightarrow> int"
  DIV_ROUND_UP :: "int \<Rightarrow> int \<Rightarrow> int"
  GDALCopyWords64 :: "fval \<Rightarrow> GDALDataType \<Rightarrow> fval"
  static_cast_float :: "fval \<Rightarrow> fval"
  GDALOpen :: "blob \<Rightarrow> tile_ds option"
  TileRasterIO :: "tile_ds \<Rightarrow> gridded_tile_ancillary option \<Rightarrow> buffer \<Rightarrow> buffer option"
  CreateCopy :: "int \<Rightarrow> int \<Rightarrow> bool \<Rightarrow> bool \<Rightarrow> buffer \<Rightarrow> blob option \<times> buffer"
  TileStatistics :: "buffer \<Rightarrow> gridded_tile_ancillary"

text \<open>
  The fields of \<open>gpkg_env\<close> named after a member or an interface call are that member
  or call. \<open>DIV_ROUND_UP\<close> is the macro of that name, whose definition is in a header.
  The last six are conversions and the calls into GDAL's core and drivers:
  \<^item> \<open>GDALCopyWords64 v dt\<close> is the \<^verbatim>\<open>double\<close> \<open>v\<close> converted to a sample of type \<open>dt\<close>;
  \<^item> \<open>static_cast_float v\<close> is \<^verbatim>\<open>static_cast<float>(v)\<close> for a \<^verbatim>\<open>double\<close> \<open>v\<close>;
  \<^item> \<open>GDALOpen blob\<close> opens a tile blob with the drivers allowed for the data type;
  \<^item> \<open>TileRasterIO ds anc buf\<close> is \<^verbatim>\<open>RasterIO\<close> into \<open>buf\<close> followed by the
    conversions of lines 488 to 712 of the source (inverse quantization with the
    tile's ancillary offset and scale, band and palette reconciliation), \<open>None\<close>
    when \<^verbatim>\<open>RasterIO\<close> fails;
  \<^item> \<open>CreateCopy row col ct all_dirty buf\<close> is the encoding of lines 1840 to 2375
    for the tile \<open>(row, col)\<close>, \<open>ct\<close> telling whether \<^verbatim>\<open>m_poCT\<close> is non-null: the choice
    of driver and band layout, the preparation of the band buffers and the driver's
    \<^verbatim>\<open>CreateCopy\<close>; it returns the blob (\<open>None\<close> when \<^verbatim>\<open>CreateCopy\<close> returns null) and
    the cached buffer as that code leaves it;
  \<^item> \<open>TileStatistics buf\<close> is the ancillary row computed at lines 1962 to 2156.
\<close>

record gpkg_state =
  m_nTileInsertionCount :: int
  m_bInWriteTile :: bool
  nDisableDirtyBlockFlushCounter :: nat
  m_asCachedTilesDesc :: "CachedTileDesc list"
  m_pabyCachedTiles :: buffer
  m_poCT :: bool
  m_bTriedEstablishingCT :: bool
  db :: main_db
  m_hTempDB :: "partial_tile list option"
  m_nAge :: int
  m_nLastSpaceCheckTimestamp :: int
  db_log :: "db_event list"

text \<open>
  \<open>m_poCT\<close> tells whether the colour table pointer is non-null. \<open>m_hTempDB\<close> is
  \<open>None\<close> for a null handle and holds the rows of \<^verbatim>\<open>partial_tiles\<close> otherwise.
  \<open>nDisableDirtyBlockFlushCounter\<close> belongs to \<^verbatim>\<open>GDALRasterBlock\<close>, which is not in the
  translation unit. Modelled from the spec: it counts the open "block-flush
  disabled" scoped regions, and the host's block cache flushes no dirty block
  while it is positive. \<open>db_log\<close> is not a member of the source:
  it records, in order, every statement sent to a database and every transaction
  call, so that "no query" and "no transaction activity" can be stated.
\<close>

text \<open>
  The value of an \<^verbatim>\<open>int\<close> expression of the source whose operands can be large: the
  result modulo \<open>2^32\<close>, as a signed number.
\<close>

definition int32 :: "int \<Rightarrow> int" where
  "int32 x = (x + 2147483648) mod 4294967296 - 2147483648"

section \<open>Buffers\<close>

definition nBandBlockSize :: "gpkg_env \<Rightarrow> nat" where
  "nBandBlockSize env = nBlockXSize env * nBlockYSize env"

text \<open>\<^verbatim>\<open>memset(p, v, n)\<close> and \<^verbatim>\<open>memcpy(p, src, n)\<close> on the suffix \<open>p\<close>.\<close>

definition memset :: "buffer \<Rightarrow> fval \<Rightarrow> nat \<Rightarrow> buffer" where
  "memset p v n = replicate n v @ drop n p"

definition memcpy :: "buffer \<Rightarrow> buffer \<Rightarrow> nat \<Rightarrow> buffer" where
  "memcpy p src n = take n src @ drop n p"

text \<open>The buffer \<open>buf\<close> after \<open>f\<close> has written through the pointer \<^verbatim>\<open>buf + off\<close>.\<close>

definition at_offset :: "nat \<Rightarrow> (buffer \<Rightarrow> buffer) \<Rightarrow> buffer \<Rightarrow> buffer" where
  "at_offset off f buf = take off buf @ f (drop off buf)"

definition FillBuffer :: "gpkg_env \<Rightarrow> buffer \<Rightarrow> nat \<Rightarrow> buffer" where
  "FillBuffer env pabyData nPixels =
     (if \<not> bHasNoData env \<or> feq (dfNoDataValue env) (Fin 0)
      then memset pabyData (Fin 0) nPixels
      else memset pabyData (GDALCopyWords64 env (dfNoDataValue env) (m_eDT env)) nPixels)"

definition FillEmptyTile :: "gpkg_env \<Rightarrow> buffer \<Rightarrow> buffer" where
  "FillEmptyTile env pabyData =
     FillBuffer env pabyData (IGetRasterCount env * nBlockXSize env * nBlockYSize env)"

definition FillEmptyTileSingleBand :: "gpkg_env \<Rightarrow> buffer \<Rightarrow> buffer" where
  "FillEmptyTileSingleBand env pabyData =
     FillBuffer env pabyData (nBlockXSize env * nBlockYSize env)"

section \<open>Reading a tile\<close>

text \<open>
  \<^verbatim>\<open>ReadTile(osMemFileName, pabyTileData, dfTileOffset, dfTileScale, pbIsLossyFormat)\<close>:
  the decoder. It returns the error code, the destination buffer and the value left
  in \<^verbatim>\<open>*pbIsLossyFormat\<close>, which the caller has set to false and which only the Byte
  path assigns.
\<close>

definition ReadTile_blob ::
  "gpkg_env \<Rightarrow> blob \<Rightarrow> buffer \<Rightarrow> gridded_tile_ancillary option \<Rightarrow> CPLErr \<times> buffer \<times> bool" where
  "ReadTile_blob env osMemFile pabyTileData anc =
     (case GDALOpen env osMemFile of
        None \<Rightarrow> (CE_Failure, FillEmptyTile env pabyTileData, False)
      | Some poDSTile \<Rightarrow>
          (let nTileBandCount = GetRasterCount poDSTile in
           if \<not> (GetRasterXSize poDSTile = int (nBlockXSize env) \<and>
                 GetRasterYSize poDSTile = int (nBlockYSize env) \<and>
                 (nTileBandCount \<ge> 1 \<and> nTileBandCount \<le> 4)) \<or>
              (m_eDT env \<noteq> GDT_Byte \<and> nTileBandCount \<noteq> 1)
           then (CE_Failure, FillEmptyTile env pabyTileData, False)
           else
             (case TileRasterIO env poDSTile anc pabyTileData of
                None \<Rightarrow> (CE_Failure, FillEmptyTile env pabyTileData, False)
              | Some pixels \<Rightarrow>
                  (CE_None, pixels, m_eDT env = GDT_Byte \<and> IsLossy poDSTile))))"

definition sql :: "db_event \<Rightarrow> gpkg_state \<Rightarrow> gpkg_state" where
  "sql e st = st\<lparr>db_log := db_log st @ [e]\<rparr>"

text \<open>
  One round of the loop of \<^verbatim>\<open>GDALGPKGMBTilesLikeRasterBand::GetColorTable\<close>. The first
  component is \<^verbatim>\<open>bRetry\<close>.
\<close>

definition ProbeColorTable :: "outcome \<Rightarrow> nat \<Rightarrow> sql_stmt \<Rightarrow> gpkg_state \<Rightarrow> bool \<times> gpkg_state" where
  "ProbeColorTable oc i stmt st =
     (let st1 = sql (MainDB stmt) st in
      if \<not> prepare_ok oc stmt then (False, st1)
      else
        (case probe_ct oc i of
           NoTileFound \<Rightarrow> (False, st1)
         | TileColorTable ct \<Rightarrow> (False, st1\<lparr>m_poCT := ct\<rparr>)
         | TileNotOneBandPNG \<Rightarrow> (True, st1)))"

text \<open>
  \<^verbatim>\<open>IGetRasterBand(1)->GetColorTable()\<close>, called for its effect on \<^verbatim>\<open>m_poCT\<close>: the first
  call looks for a colour table in a tile of the zoom level, then in the tile of
  the middle of the raster.
\<close>

definition GetColorTable :: "gpkg_env \<Rightarrow> outcome \<Rightarrow> gpkg_state \<Rightarrow> gpkg_state" where
  "GetColorTable env oc st =
     (if IGetRasterCount env \<noteq> 1 then st
      else if m_bTriedEstablishingCT st then st
      else
        (let (bRetry, st1) =
               ProbeColorTable oc 0 SelectAnyTile (st\<lparr>m_bTriedEstablishingCT := True\<rparr>)
         in if bRetry then snd (ProbeColorTable oc 1 SelectMiddleTile st1) else st1))"

text \<open>
  Line 570 of the decoder, reached when a Byte tile has been read: band 1 looks up
  its colour table when the dataset or the tile has one band. \<open>eErr\<close> is the result
  of the decoder on the blob.
\<close>

definition DecoderColorTable ::
  "gpkg_env \<Rightarrow> outcome \<Rightarrow> blob \<Rightarrow> CPLErr \<Rightarrow> gpkg_state \<Rightarrow> gpkg_state" where
  "DecoderColorTable env oc osMemFile eErr st =
     (case GDALOpen env osMemFile of
        None \<Rightarrow> st
      | Some poDSTile \<Rightarrow>
          if eErr = CE_None \<and> m_eDT env = GDT_Byte \<and>
             (IGetRasterCount env = 1 \<or> GetRasterCount poDSTile = 1)
          then GetColorTable env oc st else st)"

text \<open>\<^verbatim>\<open>GetTileOffsetAndScale\<close>: the ancillary row of the tile, read only for 16 bit PNG.\<close>

definition GetTileOffsetAndScale ::
  "gpkg_env \<Rightarrow> outcome \<Rightarrow> int \<Rightarrow> gpkg_state \<Rightarrow> gridded_tile_ancillary option \<times> gpkg_state" where
  "GetTileOffsetAndScale env oc nTileId st =
     (if m_eTF env = GPKG_TF_PNG_16BIT
      then (if exec_ok oc SelectAncillary then ancillary (db st) nTileId else None,
            sql (MainDB SelectAncillary) st)
      else (None, st))"

definition shifted :: "gpkg_env \<Rightarrow> bool" where
  "shifted env = (m_nShiftXPixelsMod env \<noteq> 0 \<or> m_nShiftYPixelsMod env \<noteq> 0)"

text \<open>The four bits of band \<open>iBand\<close> (counted from 1) in a \<^verbatim>\<open>partial_flag\<close>.\<close>

definition band_mask :: "nat \<Rightarrow> int" where
  "band_mask iBand = push_bit (4 * (iBand - 1)) ((push_bit 4 1) - 1)"

definition find_partial :: "int \<Rightarrow> int \<Rightarrow> int \<Rightarrow> partial_tile list \<Rightarrow> partial_tile option" where
  "find_partial z r c rows =
     find (\<lambda>p. pt_zoom_level p = z \<and> pt_tile_row p = r \<and> pt_tile_column p = c) rows"

definition band_blob :: "partial_tile \<Rightarrow> nat \<Rightarrow> buffer" where
  "band_blob p iBand =
     (case pt_tile_data_band p ! (iBand - 1) of None \<Rightarrow> [] | Some b \<Rightarrow> b)"

text \<open>
  The loop of \<^verbatim>\<open>ReadTile\<close> and \<^verbatim>\<open>FlushRemainingShiftedTiles\<close> over the bands of a
  partial tile: a band with a bit set is copied from its blob, another is filled
  with the empty value.
\<close>

definition load_partial_bands :: "gpkg_env \<Rightarrow> partial_tile \<Rightarrow> buffer \<Rightarrow> buffer" where
  "load_partial_bands env p pabyData =
     fold (\<lambda>iBand buf.
             at_offset ((iBand - 1) * nBandBlockSize env)
               (\<lambda>pabyDestBand.
                  if pt_partial_flag p AND band_mask iBand \<noteq> 0
                  then memcpy pabyDestBand (band_blob p iBand) (nBandBlockSize env)
                  else FillEmptyTileSingleBand env pabyDestBand) buf)
          [1..<Suc (IGetRasterCount env)] pabyData"

text \<open>
  \<^verbatim>\<open>ReadTile(nRow, nCol, pabyData, pbIsLossyFormat)\<close>. The first component of the
  result tells whether the returned pointer is non-null; then come the destination
  buffer, \<^verbatim>\<open>*pbIsLossyFormat\<close> and the state.
\<close>

definition ReadTile ::
  "gpkg_env \<Rightarrow> outcome \<Rightarrow> int \<Rightarrow> int \<Rightarrow> buffer \<Rightarrow> gpkg_state
     \<Rightarrow> bool \<times> buffer \<times> bool \<times> gpkg_state" where
  "ReadTile env oc row col pabyData st =
     (if row < 0 \<or> col < 0 \<or> row \<ge> m_nTileMatrixHeight env \<or> col \<ge> m_nTileMatrixWidth env
      then (True, FillEmptyTile env pabyData, False, st)
      else
        (let st1 = sql (MainDB SelectTile) st in
         if \<not> prepare_ok oc SelectTile then (False, pabyData, False, st1)
         else
           (case (if step_rc oc SelectTile = SQLITE_OK
                  then tiles (db st1) (m_nZoomLevel env, GetRowFromIntoTopConvention env row, col)
                  else None) of
              Some tile \<Rightarrow>
                (let nTileId = (if m_eDT env = GDT_Byte then 0 else tile_id tile);
                     (anc, st2) = GetTileOffsetAndScale env oc nTileId st1;
                     (eErr, pixels, lossy) = ReadTile_blob env (tile_data tile) pabyData anc
                 in (True, pixels, lossy, DecoderColorTable env oc (tile_data tile) eErr st2))
            | None \<Rightarrow>
                if step_rc oc SelectTile = SQLITE_BUSY
                then (True, FillEmptyTile env pabyData, False, st1)
                else
                  (case m_hTempDB st1 of
                     Some rows \<Rightarrow>
                       if shifted env
                       then
                         (let st2 = sql (TempDB SelectPartial) st1 in
                          if \<not> prepare_ok oc SelectPartial
                          then (True, FillEmptyTile env pabyData, False, st2)
                          else
                            (case (if step_rc oc SelectPartial = SQLITE_OK
                                   then find_partial (m_nZoomLevel env) row col rows
                                   else None) of
                               Some p \<Rightarrow> (True, load_partial_bands env p pabyData, False, st2)
                             | None \<Rightarrow> (True, FillEmptyTile env pabyData, False, st2)))
                       else (True, FillEmptyTile env pabyData, False, st1)
                   | None \<Rightarrow> (True, FillEmptyTile env pabyData, False, st1)))))"

section \<open>Quantization of 16 bit tiles\<close>

text \<open>
  \<^verbatim>\<open>ProcessInt16UInt16Tile<T>\<close>. The samples of type \<open>T\<close> are integers; \<open>bIsInt16\<close>
  tells that \<open>T\<close> is \<^verbatim>\<open>GInt16\<close>, so \<^verbatim>\<open>std::numeric_limits<T>::min() == 0\<close> is its
  negation. The reference parameters start at the values of both call sites
  (\<^verbatim>\<open>nValidPixels = 0\<close>, \<^verbatim>\<open>dfTileOffset = 0.0\<close>, \<^verbatim>\<open>dfTileScale = 1.0\<close>). The running mean
  and standard deviation are left out. An element of \<open>pTempTileBuffer\<close> is \<open>None\<close>
  where \<^verbatim>\<open>CPLAssert(dfVal >= 0.0 && dfVal < 65535.5)\<close> fails: the conversion to
  \<^verbatim>\<open>GUInt16\<close> that follows is then undefined in C++.
\<close>

record quantized_tile =
  pTempTileBuffer :: "int option list"
  dfTileOffset :: real
  dfTileScale :: real
  dfTileMin :: real
  dfTileMax :: real
  nValidPixels :: nat

definition is_nodata :: "bool \<Rightarrow> fval \<Rightarrow> int \<Rightarrow> bool" where
  "is_nodata hasNoData noData nVal = (hasNoData \<and> feq (Fin (of_int nVal)) noData)"

text \<open>One round of the first loop: the state is \<open>(nMin, nMax, nValidPixels)\<close>.\<close>

definition minmax_step :: "bool \<Rightarrow> fval \<Rightarrow> int \<Rightarrow> int \<times> int \<times> nat \<Rightarrow> int \<times> int \<times> nat" where
  "minmax_step hasNoData noData nVal acc =
     (case acc of (nMin, nMax, n) \<Rightarrow>
        if is_nodata hasNoData noData nVal then (nMin, nMax, n)
        else if n = 0 then (nVal, nVal, Suc n)
        else (min nMin nVal, max nMax nVal, Suc n))"

text \<open>Lines 1492 to 1525: the offset and the scale of the tile.\<close>

definition tile_offset_scale ::
  "bool \<Rightarrow> bool \<Rightarrow> fval \<Rightarrow> int \<Rightarrow> real \<Rightarrow> real \<Rightarrow> int \<Rightarrow> int \<Rightarrow> real \<times> real" where
  "tile_offset_scale bIsInt16 hasNoData noData usGPKGNull offs scale nMin nMax =
     (let dfGlobalMin = (of_int nMin - offs) / scale;
          dfGlobalMax = (of_int nMax - offs) / scale;
          dfRange = (if hasNoData \<and> usGPKGNull = 65535 \<and> dfGlobalMax - dfGlobalMin \<ge> 65535
                     then 65534 else 65535);
          tileScale = (if dfGlobalMax - dfGlobalMin > dfRange
                       then (dfGlobalMax - dfGlobalMin) / dfRange else 1);
          tileOffset = (if dfGlobalMin < 0 then - dfGlobalMin
                        else if dfGlobalMax / tileScale > dfRange
                        then dfGlobalMax - dfRange * tileScale else 0)
      in if hasNoData \<and> \<not> bIsInt16 \<and> offs = 0 \<and> scale = 1 then (0, 1)
         else if hasNoData \<and> bIsInt16 \<and> feq noData (Fin (- 32768)) \<and> usGPKGNull = 65535 \<and>
                 offs = - 32768 \<and> scale = 1
         then (1, 1)
         else (tileOffset, tileScale))"

text \<open>The body of the second loop for one sample.\<close>

definition encode_sample ::
  "bool \<Rightarrow> fval \<Rightarrow> int \<Rightarrow> real \<Rightarrow> real \<Rightarrow> real \<Rightarrow> real \<Rightarrow> int \<Rightarrow> int option" where
  "encode_sample hasNoData noData usGPKGNull offs scale tileOffset tileScale nVal =
     (if is_nodata hasNoData noData nVal then Some usGPKGNull
      else
        (let dfVal = ((of_int nVal - offs) / scale - tileOffset) / tileScale in
         if \<not> (dfVal \<ge> 0 \<and> dfVal < 65535.5) then None
         else
           (let v = \<lfloor>dfVal + 0.5\<rfloor> in
            if hasNoData \<and> v = usGPKGNull
            then (if usGPKGNull > 0 then Some (v - 1) else Some (v + 1))
            else Some v)))"

definition ProcessInt16UInt16Tile ::
  "int list \<Rightarrow> bool \<Rightarrow> bool \<Rightarrow> fval \<Rightarrow> int \<Rightarrow> real \<Rightarrow> real \<Rightarrow> quantized_tile" where
  "ProcessInt16UInt16Tile pSrc bIsInt16 hasNoData noData usGPKGNull offs scale =
     (case fold (minmax_step hasNoData noData) pSrc (0, 0, 0) of (nMin, nMax, nValid) \<Rightarrow>
        (case tile_offset_scale bIsInt16 hasNoData noData usGPKGNull offs scale nMin nMax of
           (tileOffset, tileScale) \<Rightarrow>
             \<lparr>pTempTileBuffer =
                map (encode_sample hasNoData noData usGPKGNull offs scale tileOffset tileScale) pSrc,
              dfTileOffset = tileOffset, dfTileScale = tileScale,
              dfTileMin = of_int nMin, dfTileMax = of_int nMax,
              nValidPixels = nValid\<rparr>))"

section \<open>Writing a tile\<close>

definition tile_key :: "gpkg_env \<Rightarrow> int \<Rightarrow> int \<Rightarrow> int \<times> int \<times> int" where
  "tile_key env row col = (m_nZoomLevel env, GetRowFromIntoTopConvention env row, col)"

text \<open>\<^verbatim>\<open>GetTileId\<close>: \<^verbatim>\<open>SQLGetInteger64\<close> gives 0 when there is no row or on error.\<close>

definition GetTileId :: "gpkg_env \<Rightarrow> outcome \<Rightarrow> int \<Rightarrow> int \<Rightarrow> gpkg_state \<Rightarrow> int \<times> gpkg_state" where
  "GetTileId env oc row col st =
     ((if exec_ok oc SelectTileId
       then (case tiles (db st) (tile_key env row col) of None \<Rightarrow> 0 | Some t \<Rightarrow> tile_id t)
       else 0),
      sql (MainDB SelectTileId) st)"

definition DeleteTile :: "gpkg_env \<Rightarrow> outcome \<Rightarrow> int \<Rightarrow> int \<Rightarrow> gpkg_state \<Rightarrow> bool \<times> gpkg_state" where
  "DeleteTile env oc row col st =
     (let st1 = sql (MainDB DeleteTileStmt) st in
      if exec_ok oc DeleteTileStmt
      then (True, st1\<lparr>db := (db st1)\<lparr>tiles := (tiles (db st1))(tile_key env row col := None)\<rparr>\<rparr>)
      else (False, st1))"

text \<open>
  \<^verbatim>\<open>DeleteFromGriddedTileAncillary\<close>. No caller reads its result, so only the state
  is returned.
\<close>

definition DeleteFromGriddedTileAncillary :: "outcome \<Rightarrow> int \<Rightarrow> gpkg_state \<Rightarrow> gpkg_state" where
  "DeleteFromGriddedTileAncillary oc nTileId st =
     (let st1 = sql (MainDB DeleteAncillary) st in
      if exec_ok oc DeleteAncillary
      then st1\<lparr>db := (db st1)\<lparr>ancillary := (ancillary (db st1))(nTileId := None)\<rparr>\<rparr>
      else st1)"

definition reset_desc :: "CachedTileDesc \<Rightarrow> CachedTileDesc" where
  "reset_desc d = d\<lparr>nRow := - 1, nCol := - 1, nIdxWithinTileData := - 1\<rparr>"

definition reset_slots :: "nat list \<Rightarrow> CachedTileDesc list \<Rightarrow> CachedTileDesc list" where
  "reset_slots idx descs = fold (\<lambda>i ds. ds[i := reset_desc (ds ! i)]) idx descs"

definition bAllDirty :: "gpkg_env \<Rightarrow> gpkg_state \<Rightarrow> bool" where
  "bAllDirty env st =
     list_all (\<lambda>i. abBandDirty (m_asCachedTilesDesc st ! 0) ! i) [0..<IGetRasterCount env]"

definition bAllNonDirty :: "gpkg_env \<Rightarrow> gpkg_state \<Rightarrow> bool" where
  "bAllNonDirty env st =
     list_all (\<lambda>i. \<not> abBandDirty (m_asCachedTilesDesc st ! 0) ! i) [0..<IGetRasterCount env]"

definition nTileBands :: "gpkg_env \<Rightarrow> nat" where
  "nTileBands env = (if m_eDT env = GDT_Byte then 4 else 1)"

text \<open>
  Lines 1610 to 1629 of \<^verbatim>\<open>WriteTileInternal\<close>: when some band is not dirty, the
  persisted tile is read into the temporary area of the cache and its bands
  replace the non-dirty ones. The result of \<^verbatim>\<open>ReadTile\<close> is not tested.
\<close>

definition FetchNonDirtyBands ::
  "gpkg_env \<Rightarrow> outcome \<Rightarrow> int \<Rightarrow> int \<Rightarrow> gpkg_state \<Rightarrow> bool \<times> gpkg_state" where
  "FetchNonDirtyBands env oc row col st =
     (let dirty = abBandDirty (m_asCachedTilesDesc st ! 0);
          st1 = st\<lparr>m_asCachedTilesDesc := reset_slots [1, 2, 3] (m_asCachedTilesDesc st)\<rparr>;
          off = nTileBands env * nBandBlockSize env;
          (ok, pabyTemp, bIsLossyFormat, st2) =
             ReadTile env oc row col (drop off (m_pabyCachedTiles st1)) st1;
          cache = take off (m_pabyCachedTiles st2) @ pabyTemp;
          cache' = fold (\<lambda>i buf.
                           if \<not> dirty ! i
                           then at_offset (i * nBandBlockSize env)
                                  (\<lambda>p. memcpy p (drop (off + i * nBandBlockSize env) buf)
                                          (nBandBlockSize env)) buf
                           else buf)
                        [0..<IGetRasterCount env] cache
      in (bIsLossyFormat, st2\<lparr>m_pabyCachedTiles := cache'\<rparr>))"

definition nAlphaBand :: "gpkg_env \<Rightarrow> nat" where
  "nAlphaBand env =
     (if IGetRasterCount env = 2 then 2 else if IGetRasterCount env = 4 then 4 else 0)"

definition bHasNanNoData :: "gpkg_env \<Rightarrow> bool" where
  "bHasNanNoData env = (bHasNoData env \<and> isnan (dfNoDataValue env))"

text \<open>
  Lines 1736 to 1817: the three tests that find a tile empty, in which case the
  tile is deleted and not written. \<open>poCT\<close> tells whether \<^verbatim>\<open>m_poCT\<close> is non-null and
  \<open>allDirty\<close> is \<^verbatim>\<open>bAllDirty\<close>. In the first test the loop starts at index 1 and
  succeeds when it reaches the number of pixels.
\<close>

definition IsEmptyTile :: "gpkg_env \<Rightarrow> bool \<Rightarrow> bool \<Rightarrow> buffer \<Rightarrow> bool" where
  "IsEmptyTile env poCT allDirty cache =
     (let nPixels = nBlockXSize env * nBlockYSize env in
      if allDirty \<and> m_eDT env = GDT_Byte \<and> \<not> poCT \<and> nAlphaBand env \<noteq> 0
      then
        (let base = (nAlphaBand env - 1) * nPixels;
             byFirstAlphaVal = cache ! base
         in 1 \<le> nPixels \<and> list_all (\<lambda>i. cache ! (base + i) = byFirstAlphaVal) [1..<nPixels] \<and>
            byFirstAlphaVal = Fin 0)
      else if allDirty \<and> m_eDT env = GDT_Byte \<and> \<not> poCT \<and>
              (\<not> bHasNoData env \<or> feq (dfNoDataValue env) (Fin 0))
      then list_all (\<lambda>i. cache ! i = Fin 0) [0..<nPixels * IGetRasterCount env]
      else if allDirty \<and> m_eDT env = GDT_Float32
      then
        (let fNoDataValueOrZero =
               (if bHasNoData env then static_cast_float env (dfNoDataValue env) else Fin 0) in
         list_all (\<lambda>i. if bHasNanNoData env then isnan (cache ! i)
                        else feq (cache ! i) fNoDataValueOrZero) [0..<nPixels])
      else False)"

definition sample_int :: "fval \<Rightarrow> int" where
  "sample_int v = (case v of Fin r \<Rightarrow> \<lfloor>r\<rfloor> | _ \<Rightarrow> 0)"

text \<open>
  \<^verbatim>\<open>nValidPixels\<close> as lines 1962 to 2156 compute it: by \<^verbatim>\<open>ProcessInt16UInt16Tile\<close> for
  16 bit integers, by the two loops over \<^verbatim>\<open>float\<close> samples otherwise (the loop of the
  16 bit PNG also skips infinities). It stays 0 for the other formats.
\<close>

definition float_skipped :: "gpkg_env \<Rightarrow> fval \<Rightarrow> bool" where
  "float_skipped env fVal =
     (if bHasNanNoData env then isnan fVal
      else bHasNoData env \<and> feq fVal (static_cast_float env (dfNoDataValue env)))"

definition CountValidPixels :: "gpkg_env \<Rightarrow> buffer \<Rightarrow> nat" where
  "CountValidPixels env cache =
     (let pSrc = take (nBlockXSize env * nBlockYSize env) cache in
      if m_eTF env = GPKG_TF_PNG_16BIT
      then
        (if m_eDT env = GDT_Int16 \<or> m_eDT env = GDT_UInt16
         then nValidPixels
                (ProcessInt16UInt16Tile (map sample_int pSrc) (m_eDT env = GDT_Int16)
                   (bHasNoData env) (dfNoDataValue env) (m_usGPKGNull env)
                   (m_dfOffset env) (m_dfScale env))
         else if m_eDT env = GDT_Float32
         then length (filter (\<lambda>fVal. \<not> float_skipped env fVal \<and> \<not> isinf fVal) pSrc)
         else 0)
      else if m_eTF env = GPKG_TF_TIFF_32BIT_FLOAT
      then length (filter (\<lambda>fVal. \<not> float_skipped env fVal) pSrc)
      else 0)"

text \<open>
  Lines 2382 to 2402, "Create or commit and recreate transaction". The result is
  false when the commit fails, in which case \<^verbatim>\<open>WriteTileInternal\<close> returns
  \<^verbatim>\<open>CE_Failure\<close> at once.
\<close>

definition BatchTransaction :: "outcome \<Rightarrow> gpkg_state \<Rightarrow> bool \<times> gpkg_state" where
  "BatchTransaction oc st =
     (if m_nTileInsertionCount st = 0
      then (let st1 = sql StartTransaction st
            in (True, st1\<lparr>m_nTileInsertionCount := m_nTileInsertionCount st1 + 1\<rparr>))
      else if m_nTileInsertionCount st = 1000
      then
        (let st1 = sql CommitTransaction st in
         if \<not> commit_ok oc then (False, (sql CommitFailed st1)\<lparr>m_nTileInsertionCount := - 1\<rparr>)
         else (let st2 = (sql StartTransaction st1)\<lparr>m_nTileInsertionCount := 0\<rparr>
               in (True, st2\<lparr>m_nTileInsertionCount := m_nTileInsertionCount st2 + 1\<rparr>)))
      else (True, st\<lparr>m_nTileInsertionCount := m_nTileInsertionCount st + 1\<rparr>))"

text \<open>
  Lines 2404 to 2436: \<^verbatim>\<open>INSERT OR REPLACE\<close> of the blob. The row that replaces
  another gets a new \<^verbatim>\<open>id\<close>.
\<close>

definition InsertOrReplaceTile ::
  "gpkg_env \<Rightarrow> outcome \<Rightarrow> int \<Rightarrow> int \<Rightarrow> blob \<Rightarrow> gpkg_state \<Rightarrow> CPLErr \<times> gpkg_state" where
  "InsertOrReplaceTile env oc row col pabyBlob st =
     (let st1 = sql (MainDB InsertTile) st in
      if \<not> prepare_ok oc InsertTile then (CE_Failure, st1)
      else if step_rc oc InsertTile = SQLITE_OK
      then (CE_None,
            st1\<lparr>db := (db st1)\<lparr>tiles := (tiles (db st1))
                        (tile_key env row col \<mapsto> \<lparr>tile_id = next_id (db st1), tile_data = pabyBlob\<rparr>),
                      next_id := next_id (db st1) + 1\<rparr>\<rparr>)
      else (CE_Failure, st1))"

text \<open>Lines 2438 to 2486: the ancillary row of a quantized tile.\<close>

definition InsertGriddedTileAncillary ::
  "gpkg_env \<Rightarrow> outcome \<Rightarrow> int \<Rightarrow> int \<Rightarrow> gridded_tile_ancillary \<Rightarrow> CPLErr \<Rightarrow> gpkg_state
     \<Rightarrow> CPLErr \<times> gpkg_state" where
  "InsertGriddedTileAncillary env oc row col anc eErr st =
     (if m_eTF env = GPKG_TF_PNG_16BIT \<or> m_eTF env = GPKG_TF_TIFF_32BIT_FLOAT
      then
        (let (nTileId, st1) = GetTileId env oc row col st in
         if nTileId = 0 then (CE_Failure, st1)
         else
           (let st2 = sql (MainDB InsertAncillary) (DeleteFromGriddedTileAncillary oc nTileId st1) in
            if \<not> prepare_ok oc InsertAncillary then (CE_Failure, st2)
            else if step_rc oc InsertAncillary = SQLITE_OK
            then (CE_None,
                  st2\<lparr>db := (db st2)\<lparr>ancillary := (ancillary (db st2))(nTileId \<mapsto> anc)\<rparr>\<rparr>)
            else (CE_Failure, st2)))
      else (eErr, st))"

text \<open>Lines 1840 to 2498: the encoding of the tile and its storage.\<close>

definition EncodeTile ::
  "gpkg_env \<Rightarrow> outcome \<Rightarrow> int \<Rightarrow> int \<Rightarrow> bool \<Rightarrow> gpkg_state \<Rightarrow> CPLErr \<times> gpkg_state" where
  "EncodeTile env oc row col allDirty st =
     (if \<not> driver_found oc then (CE_Failure, st)
      else if (m_eTF env = GPKG_TF_PNG_16BIT \<or> m_eTF env = GPKG_TF_TIFF_32BIT_FLOAT) \<and>
              CountValidPixels env (m_pabyCachedTiles st) = 0
      then
        (let (nId, st1) = GetTileId env oc row col st in
         if nId > 0
         then (CE_None,
               DeleteFromGriddedTileAncillary oc nId (snd (DeleteTile env oc row col st1)))
         else (CE_None, st1))
      else
        (case CreateCopy env row col (m_poCT st) allDirty (m_pabyCachedTiles st) of
           (None, cache) \<Rightarrow> (CE_Failure, st\<lparr>m_pabyCachedTiles := cache\<rparr>)
         | (Some pabyBlob, cache) \<Rightarrow>
             (let (ok, st1) = BatchTransaction oc (st\<lparr>m_pabyCachedTiles := cache\<rparr>) in
              if \<not> ok then (CE_Failure, st1)
              else
                (let (eErr, st2) = InsertOrReplaceTile env oc row col pabyBlob st1
                 in InsertGriddedTileAncillary env oc row col
                      (TileStatistics env (m_pabyCachedTiles st)) eErr st2))))"

text \<open>
  Lines 1828 to 2498: band 1 of a Byte dataset of one band looks up its colour
  table (line 1838), then the tile is encoded and stored.
\<close>

definition EncodeAndStore ::
  "gpkg_env \<Rightarrow> outcome \<Rightarrow> int \<Rightarrow> int \<Rightarrow> bool \<Rightarrow> gpkg_state \<Rightarrow> CPLErr \<times> gpkg_state" where
  "EncodeAndStore env oc row col allDirty st =
     EncodeTile env oc row col allDirty
       (if IGetRasterCount env = 1 \<and> m_eDT env = GDT_Byte then GetColorTable env oc st else st)"

definition clear_desc :: "CachedTileDesc \<Rightarrow> CachedTileDesc" where
  "clear_desc d = (reset_desc d)\<lparr>abBandDirty := [False, False, False, False]\<rparr>"

definition WriteTileInternal :: "gpkg_env \<Rightarrow> outcome \<Rightarrow> gpkg_state \<Rightarrow> CPLErr \<times> gpkg_state" where
  "WriteTileInternal env oc st =
     (let d0 = m_asCachedTilesDesc st ! 0 in
      if \<not> (IGetUpdate env \<and> nRow d0 \<ge> 0 \<and> nCol d0 \<ge> 0 \<and> nIdxWithinTileData d0 = 0)
      then (CE_None, st)
      else
        (let row = nRow d0; col = nCol d0; allDirty = bAllDirty env st in
         if bAllNonDirty env st then (CE_None, st)
         else
           (let (bIsLossyFormat, st1) =
                  (if \<not> allDirty then FetchNonDirtyBands env oc row col st else (False, st));
                nXOff = int32 ((col - m_nShiftXTiles env) * int (nBlockXSize env)
                                 - int (m_nShiftXPixelsMod env));
                nYOff = int32 ((row - m_nShiftYTiles env) * int (nBlockYSize env)
                                 - int (m_nShiftYPixelsMod env))
            in if nXOff \<ge> nRasterXSize env \<or> nYOff \<ge> nRasterYSize env then (CE_None, st1)
               else
                 (let st2 = st1\<lparr>m_asCachedTilesDesc :=
                                  (m_asCachedTilesDesc st1)
                                    [0 := clear_desc (m_asCachedTilesDesc st1 ! 0)]\<rparr>
                  in if IsEmptyTile env (m_poCT st2) allDirty (m_pabyCachedTiles st2)
                     then (CE_None, snd (DeleteTile env oc row col st2))
                     else EncodeAndStore env oc row col allDirty st2))))"

text \<open>What \<^verbatim>\<open>IWriteBlock\<close> of the host stores before it calls \<^verbatim>\<open>WriteTile\<close>.\<close>

definition host_store :: "CachedTileDesc list \<Rightarrow> buffer \<Rightarrow> gpkg_state \<Rightarrow> gpkg_state" where
  "host_store ds c st = st\<lparr>m_asCachedTilesDesc := ds, m_pabyCachedTiles := c\<rparr>"

text \<open>
  \<^verbatim>\<open>WriteTile\<close>, with what the host attempts during the call. \<^verbatim>\<open>WriteTileInternal\<close> runs
  between \<^verbatim>\<open>GDALRasterBlock::EnterDisableDirtyBlockFlush\<close> and its counterpart,
  which are not in the translation unit, and with \<^verbatim>\<open>m_bInWriteTile\<close> set.
  Modelled from the spec: the two calls open and close the "block-flush disabled"
  scoped region by counting \<open>nDisableDirtyBlockFlushCounter\<close> up and down; an attempt
  of the host to flush a dirty block does nothing while the counter is positive,
  and otherwise stores the block and calls \<^verbatim>\<open>WriteTile\<close>. \<^verbatim>\<open>WriteTileInternal\<close> assigns
  neither the counter nor the guard, so the attempts of the host are placed at the
  start of the region. \<open>HostCalls\<close> runs them. The first component of both results is
  a trace that the source does not keep: what the calls of \<^verbatim>\<open>WriteTile\<close> made by the
  host during the call have returned, in order.
\<close>

function WriteTile_traced ::
    "gpkg_env \<Rightarrow> outcome \<Rightarrow> gpkg_state \<Rightarrow> CPLErr list \<times> CPLErr \<times> gpkg_state"
  and HostCalls ::
    "gpkg_env \<Rightarrow> outcome \<Rightarrow> host_call list \<Rightarrow> gpkg_state \<Rightarrow> CPLErr list \<times> gpkg_state" where
  "WriteTile_traced env oc st =
     (if m_nTileInsertionCount st < 0 then ([], CE_Failure, st)
      else if m_bInWriteTile st then ([], CE_Failure, st)
      else
        (case HostCalls env oc (host_calls oc)
                (st\<lparr>nDisableDirtyBlockFlushCounter := nDisableDirtyBlockFlushCounter st + 1,
                    m_bInWriteTile := True\<rparr>) of
           (returned, st1) \<Rightarrow>
             (case WriteTileInternal env oc st1 of
                (eErr, st2) \<Rightarrow>
                  (returned, eErr,
                   st2\<lparr>m_bInWriteTile := False,
                       nDisableDirtyBlockFlushCounter :=
                         nDisableDirtyBlockFlushCounter st2 - 1\<rparr>))))"
| "HostCalls env oc [] st = ([], st)"
| "HostCalls env oc (CallWriteTile inner # calls) st =
     (case WriteTile_traced env (oc\<lparr>host_calls := inner\<rparr>) st of
        (returned1, eErr, st1) \<Rightarrow>
          (case HostCalls env oc calls st1 of
             (returned2, st2) \<Rightarrow> (eErr # returned1 @ returned2, st2)))"
| "HostCalls env oc (FlushDirtyBlock ds c inner # calls) st =
     (if nDisableDirtyBlockFlushCounter st > 0 then HostCalls env oc calls st
      else
        (case WriteTile_traced env (oc\<lparr>host_calls := inner\<rparr>) (host_store ds c st) of
           (returned1, eErr, st1) \<Rightarrow>
             (case HostCalls env oc calls st1 of
                (returned2, st2) \<Rightarrow> (eErr # returned1 @ returned2, st2))))"
  by pat_completeness auto

termination
  by (relation "measure (\<lambda>x. case x of
          Inl (env, oc, st) \<Rightarrow> 2 * size_list size (host_calls oc) + 1
        | Inr (env, oc, calls, st) \<Rightarrow> 2 * size_list size calls)") auto

declare WriteTile_traced.simps [simp del]

definition WriteTile :: "gpkg_env \<Rightarrow> outcome \<Rightarrow> gpkg_state \<Rightarrow> CPLErr \<times> gpkg_state" where
  "WriteTile env oc st = snd (WriteTile_traced env oc st)"

section \<open>Shifted tiles and the temporary database\<close>

text \<open>
  Copy of the rows \<open>nYOff \<le> iY < nYOff + nYSize\<close>, columns from \<open>nXOff\<close> on, of band
  \<open>nBand\<close> from the area at offset \<open>src\<close> of the cache to the area at offset \<open>dst\<close>:
  the loops of lines 2768 to 2789 and 3101 to 3112.
\<close>

definition copy_rect ::
  "gpkg_env \<Rightarrow> nat \<Rightarrow> nat \<Rightarrow> nat \<Rightarrow> nat \<Rightarrow> nat \<Rightarrow> nat \<Rightarrow> nat \<Rightarrow> buffer \<Rightarrow> buffer" where
  "copy_rect env dst src nBand nXOff nYOff nXSize nYSize cache =
     fold (\<lambda>iY buf.
             (let pos = ((nBand - 1) * nBlockYSize env + iY) * nBlockXSize env + nXOff
              in at_offset (dst + pos) (\<lambda>p. memcpy p (drop (src + pos) buf) nXSize) buf))
          [nYOff..<nYOff + nYSize] cache"

definition bit_if :: "bool \<Rightarrow> nat \<Rightarrow> int" where
  "bit_if b n = (if b then push_bit n 1 else 0)"

text \<open>The quadrant bits of the rectangle written by \<^verbatim>\<open>WriteShiftedTile\<close> (lines 3032 to 3043).\<close>

definition iQuadrantFlag :: "gpkg_env \<Rightarrow> nat \<Rightarrow> nat \<Rightarrow> nat \<Rightarrow> nat \<Rightarrow> int" where
  "iQuadrantFlag env nDstXOffset nDstYOffset nDstXSize nDstYSize =
     (let right = (nDstXOffset \<noteq> 0 \<or> nDstXOffset + nDstXSize = nBlockXSize env);
          bottom = (nDstYOffset \<noteq> 0 \<or> nDstYOffset + nDstYSize = nBlockYSize env)
      in bit_if (nDstXOffset = 0 \<and> nDstYOffset = 0) 0 OR bit_if (right \<and> nDstYOffset = 0) 1 OR
         bit_if (nDstXOffset = 0 \<and> bottom) 2 OR bit_if (right \<and> bottom) 3)"

definition nFullFlags :: "gpkg_env \<Rightarrow> int" where
  "nFullFlags env = push_bit (4 * IGetRasterCount env) 1 - 1"

text \<open>The bits of the quadrant \<open>(iXQuadrant, iYQuadrant)\<close> in the loop of lines 2719 to 2738.\<close>

definition quadrant_bits :: "nat \<Rightarrow> nat \<Rightarrow> nat \<Rightarrow> nat \<Rightarrow> int" where
  "quadrant_bits iXQuadrant iYQuadrant iXQuadrantMax iYQuadrantMax =
     bit_if (iXQuadrant = 0 \<and> iYQuadrant = 0) 0 OR
     bit_if (iXQuadrant = iXQuadrantMax \<and> iYQuadrant = 0) 1 OR
     bit_if (iXQuadrant = 0 \<and> iYQuadrant = iYQuadrantMax) 2 OR
     bit_if (iXQuadrant = iXQuadrantMax \<and> iYQuadrant = iYQuadrantMax) 3"

text \<open>
  Lines 2719 to 2793: every quadrant of every band that the partial tile lacks is
  copied from the decoded persisted tile, which lies in the temporary area of the
  cache.
\<close>

definition fill_missing_quadrants :: "gpkg_env \<Rightarrow> int \<Rightarrow> buffer \<Rightarrow> buffer" where
  "fill_missing_quadrants env nPartialFlags cache =
     (let iYQuadrantMax = (if m_nShiftYPixelsMod env \<noteq> 0 then 1 else 0::nat);
          iXQuadrantMax = (if m_nShiftXPixelsMod env \<noteq> 0 then 1 else 0::nat)
      in fold (\<lambda>(iYQuadrant, iXQuadrant, nBand) buf.
                 (let nLocalFlag = push_bit (4 * (nBand - 1))
                                     (quadrant_bits iXQuadrant iYQuadrant iXQuadrantMax iYQuadrantMax)
                  in if nPartialFlags AND nLocalFlag = 0
                     then
                       (let (nXOff, nXSize) =
                              (if iXQuadrant = 0 \<and> m_nShiftXPixelsMod env \<noteq> 0
                               then (0, m_nShiftXPixelsMod env)
                               else (m_nShiftXPixelsMod env,
                                     nBlockXSize env - m_nShiftXPixelsMod env));
                            (nYOff, nYSize) =
                              (if iYQuadrant = 0 \<and> m_nShiftYPixelsMod env \<noteq> 0
                               then (0, m_nShiftYPixelsMod env)
                               else (m_nShiftYPixelsMod env,
                                     nBlockYSize env - m_nShiftYPixelsMod env))
                        in copy_rect env 0 (nTileBands env * nBandBlockSize env)
                             nBand nXOff nYOff nXSize nYSize buf)
                     else buf))
              (List.product [0..<Suc iYQuadrantMax]
                 (List.product [0..<Suc iXQuadrantMax] [1..<Suc (IGetRasterCount env)]))
              cache)"

text \<open>
  Lines 2667 to 2804: when the flags of the partial tile are not full, the tile of
  the primary store, if there is one, supplies the missing quadrants.
\<close>

definition MergePersistedTile :: "gpkg_env \<Rightarrow> outcome \<Rightarrow> partial_tile \<Rightarrow> gpkg_state \<Rightarrow> gpkg_state" where
  "MergePersistedTile env oc p st =
     (let st1 = sql (MainDB SelectTile) st in
      if \<not> prepare_ok oc SelectTile then st1
      else
        (case (if step_rc oc SelectTile = SQLITE_OK
               then tiles (db st1) (tile_key env (pt_tile_row p) (pt_tile_column p))
               else None) of
           None \<Rightarrow> st1
         | Some tile \<Rightarrow>
             (let nTileId = (if m_eDT env = GDT_Byte then 0 else tile_id tile);
                  (anc, st2) = GetTileOffsetAndScale env oc nTileId st1;
                  off = nTileBands env * nBandBlockSize env;
                  (eErr, pixels, lossy) =
                     ReadTile_blob env (tile_data tile) (drop off (m_pabyCachedTiles st2)) anc;
                  st3 = DecoderColorTable env oc (tile_data tile) eErr st2;
                  cache = take off (m_pabyCachedTiles st3) @ pixels
              in st3\<lparr>m_pabyCachedTiles := fill_missing_quadrants env (pt_partial_flag p) cache\<rparr>)))"

definition dirty_desc :: "int \<Rightarrow> int \<Rightarrow> CachedTileDesc" where
  "dirty_desc row col =
     \<lparr>nRow = row, nCol = col, nIdxWithinTileData = 0, abBandDirty = [True, True, True, True]\<rparr>"

definition delete_partial :: "int \<Rightarrow> int \<Rightarrow> int \<Rightarrow> partial_tile list \<Rightarrow> partial_tile list" where
  "delete_partial z r c rows =
     filter (\<lambda>p. \<not> (pt_zoom_level p = z \<and> pt_tile_row p = r \<and> pt_tile_column p = c)) rows"

definition map_tempdb :: "(partial_tile list \<Rightarrow> partial_tile list) \<Rightarrow> gpkg_state \<Rightarrow> gpkg_state" where
  "map_tempdb f st = st\<lparr>m_hTempDB := map_option f (m_hTempDB st)\<rparr>"

text \<open>
  Lines 2644 to 2827 of \<^verbatim>\<open>FlushRemainingShiftedTiles\<close>: one partial tile is loaded
  into the cache, completed from the primary store, written with \<^verbatim>\<open>WriteTile\<close> and,
  in a partial flush, deleted from the temporary database.
\<close>

definition FlushOneShiftedTile ::
  "gpkg_env \<Rightarrow> outcome \<Rightarrow> bool \<Rightarrow> partial_tile \<Rightarrow> gpkg_state \<Rightarrow> CPLErr \<times> gpkg_state" where
  "FlushOneShiftedTile env oc bPartialFlush p st =
     (let st1 = st\<lparr>m_pabyCachedTiles := load_partial_bands env p (m_pabyCachedTiles st)\<rparr>;
          st2 = (if pt_partial_flag p \<noteq> nFullFlags env then MergePersistedTile env oc p st1
                 else st1);
          st3 = st2\<lparr>m_asCachedTilesDesc :=
                      (m_asCachedTilesDesc st2)[0 := dirty_desc (pt_tile_row p) (pt_tile_column p)]\<rparr>;
          (eErr, st4) = WriteTile env oc st3
      in if eErr = CE_None \<and> bPartialFlush
         then
           (let st5 = sql (TempDB DeletePartial) st4 in
            (CE_None,
             if exec_ok oc DeletePartial
             then map_tempdb (delete_partial (m_nZoomLevel env) (pt_tile_row p) (pt_tile_column p)) st5
             else st5))
         else (eErr, st4))"

text \<open>Lines 2593 to 2624: does the host's block cache hold a dirty block of the tile?\<close>

definition bFoundDirtyBlock :: "gpkg_env \<Rightarrow> outcome \<Rightarrow> partial_tile \<Rightarrow> bool" where
  "bFoundDirtyBlock env oc p =
     (let nBlockXOff = pt_tile_column p - m_nShiftXTiles env;
          nBlockYOff = pt_tile_row p - m_nShiftYTiles env;
          nXBlocks = DIV_ROUND_UP env (nRasterXSize env) (int (nBlockXSize env));
          nYBlocks = DIV_ROUND_UP env (nRasterYSize env) (int (nBlockYSize env))
      in list_ex (\<lambda>iX.
           \<not> (nBlockXOff + int iX < 0 \<or> nBlockXOff + int iX \<ge> nXBlocks) \<and>
           list_ex (\<lambda>iY.
             \<not> (nBlockYOff + int iY < 0 \<or> nBlockYOff + int iY \<ge> nYBlocks) \<and>
             list_ex (\<lambda>iBand. block_dirty oc iBand (nBlockXOff + int iX) (nBlockYOff + int iY))
               [1..<Suc (IGetRasterCount env)])
             [0..<(if m_nShiftYPixelsMod env \<noteq> 0 then 2 else 1)])
           [0..<(if m_nShiftXPixelsMod env \<noteq> 0 then 2 else 1)])"

text \<open>
  The \<^verbatim>\<open>do ... while\<close> loop of \<^verbatim>\<open>FlushRemainingShiftedTiles\<close> over the rows of the
  \<^verbatim>\<open>SELECT\<close>. \<open>ocs k\<close> is what the outside answers during round \<open>k\<close>. The result
  holds \<^verbatim>\<open>eErr\<close>, \<^verbatim>\<open>nCountFlushedTiles\<close>, the rows whose tile \<^verbatim>\<open>WriteTile\<close> has
  written without error (a trace the source does not keep), and the state.
\<close>

fun flush_rows ::
  "gpkg_env \<Rightarrow> (nat \<Rightarrow> outcome) \<Rightarrow> bool \<Rightarrow> nat \<Rightarrow> nat \<Rightarrow> partial_tile list \<Rightarrow> nat \<Rightarrow> gpkg_state
     \<Rightarrow> CPLErr \<times> nat \<times> partial_tile list \<times> gpkg_state" where
  "flush_rows env ocs bPartialFlush nPartialActiveTiles k [] nCount st = (CE_None, nCount, [], st)"
| "flush_rows env ocs bPartialFlush nPartialActiveTiles k (p # rows) nCount st =
     (if bPartialFlush \<and> bFoundDirtyBlock env (ocs k) p
      then flush_rows env ocs bPartialFlush nPartialActiveTiles (Suc k) rows nCount st
      else if bPartialFlush \<and> Suc nCount \<ge> nPartialActiveTiles div 2
      then (CE_None, Suc nCount, [], st)
      else
        (case FlushOneShiftedTile env (ocs k) bPartialFlush p st of
           (eErr, st1) \<Rightarrow>
             if eErr = CE_None
             then (case flush_rows env ocs bPartialFlush nPartialActiveTiles (Suc k) rows
                          (Suc nCount) st1 of
                     (eErr2, nCount2, written, st2) \<Rightarrow> (eErr2, nCount2, p # written, st2))
             else (eErr, Suc nCount, [], st1)))"

definition active_partial :: "gpkg_env \<Rightarrow> partial_tile list \<Rightarrow> partial_tile list" where
  "active_partial env rows =
     filter (\<lambda>p. pt_zoom_level p = m_nZoomLevel env \<and> pt_partial_flag p \<noteq> 0) rows"

definition mark_dead :: "gpkg_env \<Rightarrow> partial_tile \<Rightarrow> partial_tile" where
  "mark_dead env p = p\<lparr>pt_zoom_level := - 1 - m_nZoomLevel env, pt_partial_flag := 0, pt_age := - 1\<rparr>"

text \<open>
  \<^verbatim>\<open>FlushRemainingShiftedTiles(bPartialFlush)\<close>. \<open>oc\<close> answers the statements outside
  the loop. Rows come in the order of the table, or by ascending \<^verbatim>\<open>age\<close> in a
  partial flush.
\<close>

definition FlushRemainingShiftedTiles ::
  "gpkg_env \<Rightarrow> outcome \<Rightarrow> (nat \<Rightarrow> outcome) \<Rightarrow> bool \<Rightarrow> gpkg_state \<Rightarrow> CPLErr \<times> gpkg_state" where
  "FlushRemainingShiftedTiles env oc ocs bPartialFlush st =
     (case m_hTempDB st of
        None \<Rightarrow> (CE_None, st)
      | Some rows \<Rightarrow>
          (let st1 = st\<lparr>m_asCachedTilesDesc := reset_slots [0, 1, 2, 3] (m_asCachedTilesDesc st)\<rparr>;
               st2 = (if bPartialFlush then sql (TempDB SelectPartialCount) st1 else st1);
               nPartialActiveTiles =
                 (if bPartialFlush \<and> exec_ok oc SelectPartialCount
                  then length (active_partial env rows) else 0);
               st3 = sql (TempDB SelectPartialAll) st2
           in if \<not> prepare_ok oc SelectPartialAll then (CE_Failure, st3)
              else
                (let selected = (if step_rc oc SelectPartialAll = SQLITE_OK
                                 then (if bPartialFlush then sort_key pt_age (active_partial env rows)
                                       else active_partial env rows)
                                 else []);
                     (eErr, nCountFlushedTiles, written, st4) =
                        flush_rows env ocs bPartialFlush nPartialActiveTiles 0 selected 0 st3
                 in if selected \<noteq> [] \<and> \<not> bPartialFlush
                    then
                      (let st5 = sql (TempDB UpdateAllPartialDead) st4 in
                       (eErr,
                        if exec_ok oc UpdateAllPartialDead
                        then map_tempdb (map (\<lambda>p. if pt_zoom_level p = m_nZoomLevel env \<and>
                                                      pt_partial_flag p \<noteq> 0
                                                   then mark_dead env p else p)) st5
                        else st5))
                    else (eErr, st4))))"

definition GDALGetDataTypeSizeBytes :: "GDALDataType \<Rightarrow> int" where
  "GDALGetDataTypeSizeBytes dt =
     (case dt of GDT_Byte \<Rightarrow> 1 | GDT_Int16 \<Rightarrow> 2 | GDT_UInt16 \<Rightarrow> 2 | GDT_Float32 \<Rightarrow> 4)"

text \<open>\<^verbatim>\<open>DoPartialFlushOfPartialTilesIfNecessary\<close>.\<close>

definition DoPartialFlushOfPartialTilesIfNecessary ::
  "gpkg_env \<Rightarrow> outcome \<Rightarrow> (nat \<Rightarrow> outcome) \<Rightarrow> gpkg_state \<Rightarrow> CPLErr \<times> gpkg_state" where
  "DoPartialFlushOfPartialTilesIfNecessary env oc ocs st =
     (let nCurTimeStamp = time_now oc;
          st1 = (if m_nLastSpaceCheckTimestamp st = 0
                 then st\<lparr>m_nLastSpaceCheckTimestamp := nCurTimeStamp\<rparr> else st)
      in if m_nLastSpaceCheckTimestamp st1 > 0 \<and>
            (m_bForceTempDBCompaction env \<or> nCurTimeStamp - m_nLastSpaceCheckTimestamp st1 > 10)
         then
           (let st2 = st1\<lparr>m_nLastSpaceCheckTimestamp := nCurTimeStamp\<rparr>;
                bTryFreeing =
                  (if nFreeSpace oc \<ge> 0 \<and> nFreeSpace oc < 1024 * 1024 * 1024 then True
                   else (case nTempSpace oc of
                           None \<Rightarrow> False
                         | Some nTemp \<Rightarrow>
                             nTemp > 4 * nRasterXSize env * int (nBlockYSize env) *
                                       int (IGetRasterCount env) *
                                       GDALGetDataTypeSizeBytes (m_eDT env)))
            in if bTryFreeing
               then
                 (case FlushRemainingShiftedTiles env oc ocs True st2 of
                    (eErr, st3) \<Rightarrow>
                      if eErr \<noteq> CE_None then (CE_Failure, st3)
                      else
                        (let st4 = sql (TempDB DeleteDeadPartial) st3;
                             st5 = (if exec_ok oc DeleteDeadPartial
                                    then map_tempdb (filter (\<lambda>p. \<not> pt_zoom_level p < 0)) st4
                                    else st4)
                         in (CE_None, sql (TempDB Vacuum) st5)))
               else (CE_None, st2))
         else (CE_None, st1))"

definition find_id :: "int \<Rightarrow> partial_tile list \<Rightarrow> partial_tile option" where
  "find_id i rows = find (\<lambda>p. pt_id p = i) rows"

text \<open>
  Lines 3139 to 3174 of \<^verbatim>\<open>WriteShiftedTile\<close>: the bands of the complete tile are
  gathered in the cache, the band being written from the temporary area, the
  others from the blobs of the row \<open>nExistingId\<close>. A failing
  \<^verbatim>\<open>SQLPrepareWithError\<close> leaves the function: the first component is then false.
\<close>

fun assemble_bands ::
  "gpkg_env \<Rightarrow> outcome \<Rightarrow> nat \<Rightarrow> int \<Rightarrow> nat list \<Rightarrow> gpkg_state \<Rightarrow> bool \<times> gpkg_state" where
  "assemble_bands env oc nBand nExistingId [] st = (True, st)"
| "assemble_bands env oc nBand nExistingId (iBand # bands) st =
     (let off = (iBand - 1) * nBandBlockSize env in
      if iBand \<noteq> nBand
      then
        (let st1 = sql (TempDB SelectPartialBand) st in
         if \<not> prepare_ok oc SelectPartialBand then (False, st1)
         else
           assemble_bands env oc nBand nExistingId bands
             (case (if step_rc oc SelectPartialBand = SQLITE_OK
                    then (case m_hTempDB st1 of None \<Rightarrow> None | Some rows \<Rightarrow> find_id nExistingId rows)
                    else None) of
                None \<Rightarrow> st1
              | Some p \<Rightarrow>
                  st1\<lparr>m_pabyCachedTiles :=
                        at_offset off (\<lambda>q. memcpy q (band_blob p iBand) (nBandBlockSize env))
                          (m_pabyCachedTiles st1)\<rparr>))
      else
        assemble_bands env oc nBand nExistingId bands
          (st\<lparr>m_pabyCachedTiles :=
                at_offset off
                  (\<lambda>q. memcpy q (drop (nTileBands env * nBandBlockSize env + off)
                                    (m_pabyCachedTiles st)) (nBandBlockSize env))
                  (m_pabyCachedTiles st)\<rparr>))"

definition fresh_id :: "partial_tile list \<Rightarrow> int" where
  "fresh_id rows = fold max (map pt_id rows) 0 + 1"

definition set_band :: "nat \<Rightarrow> buffer \<Rightarrow> buffer option list \<Rightarrow> buffer option list" where
  "set_band nBand b bands = bands[nBand - 1 := Some b]"

text \<open>
  Lines 3071 to 3112 of \<^verbatim>\<open>WriteShiftedTile\<close>: the band being written is loaded
  into the temporary area of the cache, from its blob in the row \<open>existing\<close> when
  the flags of that row have a bit of the band, with the empty value otherwise;
  then the written rectangle is copied over it from the front of the cache.
\<close>

definition stage_band ::
  "gpkg_env \<Rightarrow> partial_tile option \<Rightarrow> nat \<Rightarrow> nat \<Rightarrow> nat \<Rightarrow> nat \<Rightarrow> nat \<Rightarrow> buffer \<Rightarrow> buffer" where
  "stage_band env existing nBand nDstXOffset nDstYOffset nDstXSize nDstYSize cache =
     (let tmp = nTileBands env * nBandBlockSize env;
          off = (nBand - 1) * nBandBlockSize env;
          cache1 = at_offset (tmp + off)
                     (\<lambda>q. case existing of
                             None \<Rightarrow> FillEmptyTileSingleBand env q
                           | Some p \<Rightarrow>
                               if pt_partial_flag p AND band_mask nBand = 0
                               then FillEmptyTileSingleBand env q
                               else memcpy q (band_blob p nBand) (nBandBlockSize env))
                     cache
      in copy_rect env tmp 0 nBand nDstXOffset nDstYOffset nDstXSize nDstYSize cache1)"

text \<open>
  Lines 3134 to 3199: all quadrants of all bands are there. The bands are gathered,
  slot 0 is declared dirty in all bands, the row \<open>nExistingId\<close> is marked dead, the
  tile is written with \<^verbatim>\<open>WriteTile\<close>, and a partial flush may follow. A failure of
  the partial flush resets the result to \<^verbatim>\<open>CE_None\<close>.
\<close>

definition CompleteShiftedTile ::
  "gpkg_env \<Rightarrow> outcome \<Rightarrow> (nat \<Rightarrow> outcome) \<Rightarrow> int \<Rightarrow> int \<Rightarrow> nat \<Rightarrow> int \<Rightarrow> gpkg_state
     \<Rightarrow> CPLErr \<times> gpkg_state" where
  "CompleteShiftedTile env oc ocs row col nBand nExistingId st =
     (case assemble_bands env oc nBand nExistingId [1..<Suc (IGetRasterCount env)] st of
        (False, st1) \<Rightarrow> (CE_Failure, st1)
      | (True, st1) \<Rightarrow>
          (let st2 = sql (TempDB UpdatePartialDead)
                       (st1\<lparr>m_asCachedTilesDesc :=
                              (m_asCachedTilesDesc st1)[0 := dirty_desc row col]\<rparr>);
               st3 = (if exec_ok oc UpdatePartialDead
                      then map_tempdb (map (\<lambda>p. if pt_id p = nExistingId
                                                 then mark_dead env p else p)) st2
                      else st2);
               (eErr, st4) = WriteTile env oc st3;
               (eFlush, st5) = DoPartialFlushOfPartialTilesIfNecessary env oc ocs st4
           in (if eFlush \<noteq> CE_None then CE_None else eErr, st5)))"

text \<open>
  Lines 3201 to 3221: with no row for the tile, a dead row is looked for, first one
  of the same tile, then any.
\<close>

definition find_reusable :: "gpkg_env \<Rightarrow> outcome \<Rightarrow> int \<Rightarrow> int \<Rightarrow> gpkg_state \<Rightarrow> int \<times> gpkg_state" where
  "find_reusable env oc row col st =
     (let rows = (case m_hTempDB st of None \<Rightarrow> [] | Some rs \<Rightarrow> rs);
          st1 = sql (TempDB SelectDeadSame) st;
          same = (if exec_ok oc SelectDeadSame
                  then (case find (\<lambda>p. pt_partial_flag p = 0 \<and>
                                       pt_zoom_level p = - 1 - m_nZoomLevel env \<and>
                                       pt_tile_row p = row \<and> pt_tile_column p = col) rows of
                          None \<Rightarrow> 0 | Some p \<Rightarrow> pt_id p)
                  else 0)
      in if same = 0
         then ((if exec_ok oc SelectDeadAny
                then (case find (\<lambda>p. pt_partial_flag p = 0) rows of None \<Rightarrow> 0 | Some p \<Rightarrow> pt_id p)
                else 0),
               sql (TempDB SelectDeadAny) st1)
         else (same, st1))"

text \<open>
  The effect of the \<^verbatim>\<open>INSERT\<close> (when \<open>nReuseId\<close> is 0) or \<^verbatim>\<open>UPDATE\<close> of lines 3224
  to 3240 on the rows of \<^verbatim>\<open>partial_tiles\<close>.
\<close>

definition upsert_partial ::
  "gpkg_env \<Rightarrow> int \<Rightarrow> int \<Rightarrow> int \<Rightarrow> nat \<Rightarrow> buffer \<Rightarrow> int \<Rightarrow> int \<Rightarrow> partial_tile list
     \<Rightarrow> partial_tile list" where
  "upsert_partial env nReuseId row col nBand blob l_nFlags nAge rs =
     (if nReuseId = 0
      then rs @ [\<lparr>pt_id = fresh_id rs, pt_zoom_level = m_nZoomLevel env,
                  pt_tile_column = col, pt_tile_row = row,
                  pt_tile_data_band = set_band nBand blob [None, None, None, None],
                  pt_partial_flag = l_nFlags, pt_age = nAge\<rparr>]
      else map (\<lambda>p. if pt_id p = nReuseId
                     then p\<lparr>pt_zoom_level := m_nZoomLevel env,
                            pt_tile_row := row, pt_tile_column := col,
                            pt_tile_data_band := set_band nBand blob (pt_tile_data_band p),
                            pt_partial_flag := l_nFlags, pt_age := nAge\<rparr>
                     else p) rs)"

text \<open>
  Lines 3201 to 3278: the tile is not complete. The blob of the band, the new flags
  and the current \<^verbatim>\<open>m_nAge\<close> go into a new row, or into the row \<open>nExistingId\<close>, or
  into a dead row that is reused; \<^verbatim>\<open>m_nAge\<close> is incremented.
\<close>

definition StorePartialTile ::
  "gpkg_env \<Rightarrow> outcome \<Rightarrow> (nat \<Rightarrow> outcome) \<Rightarrow> int \<Rightarrow> int \<Rightarrow> nat \<Rightarrow> int \<Rightarrow> int \<Rightarrow> gpkg_state
     \<Rightarrow> CPLErr \<times> gpkg_state" where
  "StorePartialTile env oc ocs row col nBand nExistingId l_nFlags st =
     (let (nReuseId, st1) =
            (if nExistingId = 0 then find_reusable env oc row col st else (nExistingId, st));
          nAge = m_nAge st1;
          stmt = (if nReuseId = 0 then InsertPartial else UpdatePartial);
          st2 = sql (TempDB stmt) (st1\<lparr>m_nAge := m_nAge st1 + 1\<rparr>)
      in if \<not> prepare_ok oc stmt then (CE_Failure, st2)
         else
           (let blob = take (nBandBlockSize env)
                         (drop (nTileBands env * nBandBlockSize env +
                                (nBand - 1) * nBandBlockSize env) (m_pabyCachedTiles st2));
                eErr = (if step_rc oc stmt = SQLITE_OK then CE_None else CE_Failure);
                st3 = (if step_rc oc stmt = SQLITE_OK
                       then map_tempdb (upsert_partial env nReuseId row col nBand blob l_nFlags nAge) st2
                       else st2);
                (eFlush, st4) = DoPartialFlushOfPartialTilesIfNecessary env oc ocs st3
            in (if eFlush \<noteq> CE_None then CE_None else eErr, st4)))"

text \<open>
  \<^verbatim>\<open>WriteShiftedTile\<close>. A temporary database that has just been created holds an
  empty \<^verbatim>\<open>partial_tiles\<close> table; the statements that create it are not logged. When
  \<^verbatim>\<open>sqlite3_open\<close> fails, the handle it may have left stays in \<^verbatim>\<open>m_hTempDB\<close>, and the
  outcomes of the later calls tell what the statements sent to it answer. The
  \<^verbatim>\<open>id\<close> of an inserted row is one more than the largest \<^verbatim>\<open>id\<close> of the table.
\<close>

definition WriteShiftedTile ::
  "gpkg_env \<Rightarrow> outcome \<Rightarrow> (nat \<Rightarrow> outcome) \<Rightarrow> int \<Rightarrow> int \<Rightarrow> nat \<Rightarrow> nat \<Rightarrow> nat \<Rightarrow> nat \<Rightarrow> nat
     \<Rightarrow> gpkg_state \<Rightarrow> CPLErr \<times> gpkg_state" where
  "WriteShiftedTile env oc ocs row col nBand nDstXOffset nDstYOffset nDstXSize nDstYSize st =
     (if m_hTempDB st = None \<and> \<not> (tempdb_open_ok oc \<and> tempdb_open_handle oc)
      then (CE_Failure, st\<lparr>m_hTempDB := (if tempdb_open_handle oc then Some [] else None)\<rparr>)
      else
        (let rows = (case m_hTempDB st of None \<Rightarrow> [] | Some rs \<Rightarrow> rs);
             l_nFlags0 = push_bit (4 * (nBand - 1))
                           (iQuadrantFlag env nDstXOffset nDstYOffset nDstXSize nDstYSize);
             st1 = sql (TempDB SelectPartial)
                     (st\<lparr>m_hTempDB := Some rows,
                         m_asCachedTilesDesc := reset_slots [1, 2, 3] (m_asCachedTilesDesc st)\<rparr>)
         in if \<not> prepare_ok oc SelectPartial then (CE_Failure, st1)
            else
              (let existing = (if step_rc oc SelectPartial = SQLITE_OK
                               then find_partial (m_nZoomLevel env) row col rows else None);
                   nExistingId = (case existing of None \<Rightarrow> 0 | Some p \<Rightarrow> pt_id p);
                   nOldFlags = (case existing of None \<Rightarrow> 0 | Some p \<Rightarrow> pt_partial_flag p);
                   st2 = st1\<lparr>m_pabyCachedTiles :=
                               stage_band env existing nBand nDstXOffset nDstYOffset nDstXSize
                                 nDstYSize (m_pabyCachedTiles st1)\<rparr>;
                   l_nFlags = l_nFlags0 OR nOldFlags
               in if l_nFlags = nFullFlags env
                  then CompleteShiftedTile env oc ocs row col nBand nExistingId st2
                  else StorePartialTile env oc ocs row col nBand nExistingId l_nFlags st2)))"

text \<open>
  \<^verbatim>\<open>FlushTiles\<close>. \<open>oc\<close> answers the \<^verbatim>\<open>ICommitTransaction\<close> of lines 159 to 170, \<open>ocw\<close>
  the call of \<^verbatim>\<open>WriteTile\<close> or of \<^verbatim>\<open>FlushRemainingShiftedTiles\<close>, and \<open>ocs\<close> the rounds
  of the loop of the latter.
\<close>

definition FlushTiles ::
  "gpkg_env \<Rightarrow> outcome \<Rightarrow> outcome \<Rightarrow> (nat \<Rightarrow> outcome) \<Rightarrow> gpkg_state \<Rightarrow> CPLErr \<times> gpkg_state" where
  "FlushTiles env oc ocw ocs st =
     (if m_nTileInsertionCount st < 0 then (CE_Failure, st)
      else
        (let (eErr, st1) =
               (if IGetUpdate env
                then (if shifted env then FlushRemainingShiftedTiles env ocw ocs False st
                      else WriteTile env ocw st)
                else (CE_None, st))
         in if m_nTileInsertionCount st1 > 0
            then
              (let st2 = sql CommitTransaction st1 in
               if \<not> commit_ok oc
               then (CE_Failure, (sql CommitFailed st2)\<lparr>m_nTileInsertionCount := - 1\<rparr>)
               else (eErr, st2\<lparr>m_nTileInsertionCount := 0\<rparr>))
            else (eErr, st1)))"

section \<open>A small dataset for concrete evaluation\<close>

text \<open>
  One Byte band, tiles of two pixels by one, a raster of two tiles in a row, PNG
  tiles, no colour table and no no-data value. The decoder reads the width of a
  tile from the first byte of its blob. The host attempts nothing during a write.
\<close>

definition ex_env :: gpkg_env where
  "ex_env =
     \<lparr>IGetUpdate = True, IGetRasterCount = 1, nBlockXSize = 2, nBlockYSize = 1,
      nRasterXSize = 4, nRasterYSize = 1, m_eDT = GDT_Byte, m_eTF = GPKG_TF_PNG,
      bHasNoData = False, dfNoDataValue = Fin 0, m_dfOffset = 0,
      m_dfScale = 1, m_usGPKGNull = 0, m_nZoomLevel = 0, m_nTileMatrixWidth = 2,
      m_nTileMatrixHeight = 1, m_nShiftXTiles = 0, m_nShiftYTiles = 0,
      m_nShiftXPixelsMod = 0, m_nShiftYPixelsMod = 0, m_bForceTempDBCompaction = False,
      GetRowFromIntoTopConvention = (\<lambda>r. r),
      DIV_ROUND_UP = (\<lambda>a b. if a mod b = 0 then a div b else a div b + 1),
      GDALCopyWords64 = (\<lambda>v dt. v), static_cast_float = (\<lambda>v. v),
      GDALOpen = (\<lambda>b. case b of [] \<Rightarrow> None
                        | w # _ \<Rightarrow> Some \<lparr>GetRasterXSize = int w, GetRasterYSize = 1,
                                         GetRasterCount = 1, IsLossy = False\<rparr>),
      TileRasterIO = (\<lambda>ds anc buf. Some buf),
      CreateCopy = (\<lambda>r c ct a buf. (Some [2], buf)),
      TileStatistics = (\<lambda>buf. \<lparr>anc_scale = 1, anc_offset = 0, anc_min = 0, anc_max = 0,
                               anc_mean = 0, anc_std_dev = 0\<rparr>)\<rparr>"

definition ex_oc :: outcome where
  "ex_oc =
     \<lparr>prepare_ok = (\<lambda>s. True), step_rc = (\<lambda>s. SQLITE_OK), commit_ok = True,
      driver_found = True, tempdb_open_ok = True, tempdb_open_handle = True,
      block_dirty = (\<lambda>b x y. False),
      time_now = 100, nFreeSpace = 2 * 1024 * 1024 * 1024, nTempSpace = None,
      probe_ct = (\<lambda>i. NoTileFound), host_calls = []\<rparr>"

definition ex_desc :: CachedTileDesc where
  "ex_desc = \<lparr>nRow = - 1, nCol = - 1, nIdxWithinTileData = - 1,
              abBandDirty = [False, False, False, False]\<rparr>"

definition ex_state :: gpkg_state where
  "ex_state =
     \<lparr>m_nTileInsertionCount = 0, m_bInWriteTile = False, nDisableDirtyBlockFlushCounter = 0,
      m_asCachedTilesDesc = [ex_desc, ex_desc, ex_desc, ex_desc],
      m_pabyCachedTiles = replicate 32 (Fin 7),
      m_poCT = False, m_bTriedEstablishingCT = False,
      db = \<lparr>tiles = Map.empty, ancillary = Map.empty, next_id = 1\<rparr>,
      m_hTempDB = None, m_nAge = 0, m_nLastSpaceCheckTimestamp = 0, db_log = []\<rparr>"

text \<open>The value \<^verbatim>\<open>FillBuffer\<close> writes: zero, or the no-data value as a sample.\<close>

definition empty_value :: "gpkg_env \<Rightarrow> fval" where
  "empty_value env =
     (if \<not> bHasNoData env \<or> feq (dfNoDataValue env) (Fin 0) then Fin 0
      else GDALCopyWords64 env (dfNoDataValue env) (m_eDT env))"

section \<open>Observations on a state\<close>

text \<open>
  The number of \<^verbatim>\<open>ICommitTransaction\<close> calls, of those that have failed, and of
  \<^verbatim>\<open>INSERT OR REPLACE\<close> statements (tile upserts) in the log.
\<close>

definition commits :: "gpkg_state \<Rightarrow> nat" where
  "commits st = count_list (db_log st) CommitTransaction"

definition failed_commits :: "gpkg_state \<Rightarrow> nat" where
  "failed_commits st = count_list (db_log st) CommitFailed"

definition upserts :: "gpkg_state \<Rightarrow> nat" where
  "upserts st = count_list (db_log st) (MainDB InsertTile)"

text \<open>Two states agree on the members that no step of a tile write assigns.\<close>

definition frame_eq :: "gpkg_state \<Rightarrow> gpkg_state \<Rightarrow> bool" where
  "frame_eq st st' =
     (m_bInWriteTile st' = m_bInWriteTile st \<and>
      nDisableDirtyBlockFlushCounter st' = nDisableDirtyBlockFlushCounter st \<and>
      m_hTempDB st' = m_hTempDB st \<and> m_nAge st' = m_nAge st \<and>
      m_nLastSpaceCheckTimestamp st' = m_nLastSpaceCheckTimestamp st)"

text \<open>Two states agree on the insertion counter and on the commits and upserts so far.\<close>

definition batch_eq :: "gpkg_state \<Rightarrow> gpkg_state \<Rightarrow> bool" where
  "batch_eq st st' =
     (m_nTileInsertionCount st' = m_nTileInsertionCount st \<and> commits st' = commits st \<and>
      upserts st' = upserts st \<and> failed_commits st' = failed_commits st)"

definition quiet :: "gpkg_state \<Rightarrow> gpkg_state \<Rightarrow> bool" where
  "quiet st st' = (frame_eq st st' \<and> batch_eq st st')"

text \<open>
  What one call of \<^verbatim>\<open>WriteTile\<close> can do to the batch: nothing; one upsert inside
  the open batch; a commit followed by the first upsert of the next batch; a
  failed commit, which sets the counter to -1 and fails the call.
\<close>

definition batch_step :: "outcome \<Rightarrow> gpkg_state \<Rightarrow> CPLErr \<Rightarrow> gpkg_state \<Rightarrow> bool" where
  "batch_step oc st e st' =
     (batch_eq st st' \<or>
      (m_nTileInsertionCount st \<noteq> 1000 \<and>
       m_nTileInsertionCount st' = m_nTileInsertionCount st + 1 \<and>
       commits st' = commits st \<and> upserts st' = upserts st + 1 \<and>
       failed_commits st' = failed_commits st) \<or>
      (m_nTileInsertionCount st = 1000 \<and> commit_ok oc \<and> m_nTileInsertionCount st' = 1 \<and>
       commits st' = commits st + 1 \<and> upserts st' = upserts st + 1 \<and>
       failed_commits st' = failed_commits st) \<or>
      (m_nTileInsertionCount st = 1000 \<and> \<not> commit_ok oc \<and> m_nTileInsertionCount st' = - 1 \<and>
       commits st' = commits st + 1 \<and> upserts st' = upserts st \<and>
       failed_commits st' = failed_commits st + 1 \<and> e = CE_Failure))"

text \<open>
  The batch as the claims on transactions see it: the insertion counter, the
  commits and the upserts. \<open>batch_inv st0 st\<close> relates a state \<open>st\<close> to a state \<open>st0\<close>
  with counter 0 from which it was reached: unless the batcher is poisoned, every
  upsert since \<open>st0\<close> is either in one of the batches of 1000 committed since, or
  among the \<open>m_nTileInsertionCount\<close> upserts of the open batch.
\<close>

definition bview :: "gpkg_state \<Rightarrow> int \<times> nat \<times> nat \<times> nat" where
  "bview st = (m_nTileInsertionCount st, commits st, upserts st, failed_commits st)"

definition binv :: "int \<times> nat \<times> nat \<times> nat \<Rightarrow> int \<times> nat \<times> nat \<times> nat \<Rightarrow> bool" where
  "binv v0 v =
     (case v0 of (n0, c0, u0, f0) \<Rightarrow> case v of (n, c, u, f) \<Rightarrow>
        n < 0 \<or>
        (c0 \<le> c \<and> u0 \<le> u \<and> int (u - u0) = 1000 * int (c - c0) + n \<and> n \<le> 1000 \<and>
         (n = 0 \<longrightarrow> u = u0)))"

definition batch_inv :: "gpkg_state \<Rightarrow> gpkg_state \<Rightarrow> bool" where
  "batch_inv st0 st = binv (bview st0) (bview st)"

text \<open>\<open>batch_step\<close> for a call that starts with a poisoned batcher: it fails and changes nothing.\<close>

definition wstep :: "outcome \<Rightarrow> gpkg_state \<Rightarrow> CPLErr \<Rightarrow> gpkg_state \<Rightarrow> bool" where
  "wstep oc st e st' =
     (if m_nTileInsertionCount st < 0 then bview st' = bview st \<and> e = CE_Failure
      else batch_step oc st e st')"

text \<open>
  What a call that starts with a batcher that is not poisoned can do: either no
  commit fails, and the batcher is not poisoned, or the batcher is poisoned and the
  call fails.
\<close>

definition no_failure_or_poison :: "gpkg_state \<Rightarrow> CPLErr \<Rightarrow> gpkg_state \<Rightarrow> bool" where
  "no_failure_or_poison st e st' =
     ((failed_commits st' = failed_commits st \<and> 0 \<le> m_nTileInsertionCount st') \<or>
      (m_nTileInsertionCount st' = - 1 \<and> e = CE_Failure))"

text \<open>
  A session of the host. Before each call the host's \<^verbatim>\<open>IWriteBlock\<close> or
  \<^verbatim>\<open>IReadBlock\<close> has put what it wants into the slot descriptors and the cached
  tiles; then it calls \<^verbatim>\<open>WriteTile\<close> or \<^verbatim>\<open>WriteShiftedTile\<close>.
\<close>

datatype host_op =
  HostWriteTile "CachedTileDesc list" buffer outcome
  | HostWriteShiftedTile "CachedTileDesc list" buffer outcome "nat \<Rightarrow> outcome"
      int int nat nat nat nat nat

fun apply_op :: "gpkg_env \<Rightarrow> host_op \<Rightarrow> gpkg_state \<Rightarrow> gpkg_state" where
  "apply_op env (HostWriteTile ds c oc) st = snd (WriteTile env oc (host_store ds c st))"
| "apply_op env (HostWriteShiftedTile ds c oc ocs row col nBand x y xs ys) st =
     snd (WriteShiftedTile env oc ocs row col nBand x y xs ys (host_store ds c st))"

definition run :: "gpkg_env \<Rightarrow> host_op list \<Rightarrow> gpkg_state \<Rightarrow> gpkg_state" where
  "run env ops st = fold (apply_op env) ops st"

text \<open>Slot 0 holds tile (0, 0) with every band dirty; the host writes it again and again.\<close>

definition ex_dirty_slots :: "CachedTileDesc list" where
  "ex_dirty_slots = [dirty_desc 0 0, ex_desc, ex_desc, ex_desc]"

definition ex_op :: host_op where
  "ex_op = HostWriteTile ex_dirty_slots (replicate 32 (Fin 7)) ex_oc"

text \<open>Slot 0 holds tile (0, 0) at index 0 of the cache, and no band is dirty.\<close>

definition ex_clean_state :: gpkg_state where
  "ex_clean_state =
     ex_state\<lparr>m_asCachedTilesDesc :=
                [\<lparr>nRow = 0, nCol = 0, nIdxWithinTileData = 0,
                  abBandDirty = [False, False, False, False]\<rparr>, ex_desc, ex_desc, ex_desc]\<rparr>"

text \<open>
  A host that, during a write, tries to flush a block of zeros for tile (0, 1),
  calls \<^verbatim>\<open>WriteTile\<close>, and calls it once more with a further call inside.
\<close>

definition ex_host_oc :: outcome where
  "ex_host_oc =
     ex_oc\<lparr>host_calls :=
              [FlushDirtyBlock [dirty_desc 0 1, ex_desc, ex_desc, ex_desc] (replicate 32 (Fin 0)) [],
               CallWriteTile [], CallWriteTile [CallWriteTile []]]\<rparr>"

text \<open>
  The words of the claim on empty tiles: every sample of the alpha band is 0; every
  sample of every band is 0; every sample of a \<^verbatim>\<open>float\<close> tile is the no-data value
  (NaN when that is the no-data value, 0 when there is none); every sample of a
  16 bit integer tile is an integer and is the no-data value.
\<close>

definition nPixels :: "gpkg_env \<Rightarrow> nat" where
  "nPixels env = nBlockXSize env * nBlockYSize env"





















section \<open>Properties of the reader\<close>

lemma take_memset: "take n (memset p v n) = replicate n v"
  by (simp add: memset_def)

lemma take_FillBuffer:
  "take n (FillBuffer env p n) =
     replicate n (if \<not> bHasNoData env \<or> feq (dfNoDataValue env) (Fin 0) then Fin 0
                  else GDALCopyWords64 env (dfNoDataValue env) (m_eDT env))"
  by (simp add: FillBuffer_def take_memset)

lemma take_FillEmptyTile:
  "take (IGetRasterCount env * nBlockXSize env * nBlockYSize env) (FillEmptyTile env p) =
     replicate (IGetRasterCount env * nBlockXSize env * nBlockYSize env) (empty_value env)"
  by (simp add: FillEmptyTile_def take_FillBuffer empty_value_def)

text \<open>
  Claim C7. The decoder fails, and fills the destination with the empty value, when
  the blob cannot be opened and when the opened tile does not have the width and
  height of a block, between 1 and 4 bands, and exactly 1 band for a data type
  other than Byte. It succeeds only on a tile of that geometry. The filled
  destination holds the empty value in all its samples.
\<close>

theorem ReadTile_blob_validates:
  "(GDALOpen env osMemFile = None \<longrightarrow>
      ReadTile_blob env osMemFile pabyTileData anc = (CE_Failure, FillEmptyTile env pabyTileData, False)) \<and>
   (\<forall>ds. GDALOpen env osMemFile = Some ds \<and>
         (GetRasterXSize ds \<noteq> int (nBlockXSize env) \<or> GetRasterYSize ds \<noteq> int (nBlockYSize env) \<or>
          GetRasterCount ds < 1 \<or> GetRasterCount ds > 4 \<or>
          (m_eDT env \<noteq> GDT_Byte \<and> GetRasterCount ds \<noteq> 1)) \<longrightarrow>
      ReadTile_blob env osMemFile pabyTileData anc = (CE_Failure, FillEmptyTile env pabyTileData, False)) \<and>
   (fst (ReadTile_blob env osMemFile pabyTileData anc) = CE_None \<longrightarrow>
      (\<exists>ds. GDALOpen env osMemFile = Some ds \<and>
            GetRasterXSize ds = int (nBlockXSize env) \<and> GetRasterYSize ds = int (nBlockYSize env) \<and>
            1 \<le> GetRasterCount ds \<and> GetRasterCount ds \<le> 4 \<and>
            (m_eDT env \<noteq> GDT_Byte \<longrightarrow> GetRasterCount ds = 1))) \<and>
   take (IGetRasterCount env * nBlockXSize env * nBlockYSize env) (FillEmptyTile env pabyTileData) =
     replicate (IGetRasterCount env * nBlockXSize env * nBlockYSize env) (empty_value env)"
  by (auto simp: ReadTile_blob_def Let_def take_FillEmptyTile split: option.splits)

theorem ReadTile_blob_validates_witness:
  "ReadTile_blob ex_env [3] (replicate 4 (Fin 7)) None =
     (CE_Failure, [Fin 0, Fin 0, Fin 7, Fin 7], False) \<and>
   ReadTile_blob ex_env [] (replicate 4 (Fin 7)) None =
     (CE_Failure, [Fin 0, Fin 0, Fin 7, Fin 7], False) \<and>
   ReadTile_blob ex_env [2] (replicate 4 (Fin 7)) None =
     (CE_None, [Fin 7, Fin 7, Fin 7, Fin 7], False)"
  using ReadTile_blob_validates [of ex_env "[3]" "replicate 4 (Fin 7)" None]
        ReadTile_blob_validates [of ex_env "[]" "replicate 4 (Fin 7)" None]
        ReadTile_blob_validates [of ex_env "[2]" "replicate 4 (Fin 7)" None]
  by (simp add: ex_env_def ReadTile_blob_def FillEmptyTile_def FillBuffer_def memset_def
        numeral_eq_Suc)

text \<open>
  Claim C10. For a row or column outside the tile matrix, \<^verbatim>\<open>ReadTile\<close> returns the
  destination (a non-null pointer) filled with the empty value and leaves the
  state as it is: no statement is added to the log.
\<close>

theorem ReadTile_outside_matrix:
  assumes "row < 0 \<or> col < 0 \<or> row \<ge> m_nTileMatrixHeight env \<or> col \<ge> m_nTileMatrixWidth env"
  shows "ReadTile env oc row col pabyData st = (True, FillEmptyTile env pabyData, False, st) \<and>
         take (IGetRasterCount env * nBlockXSize env * nBlockYSize env) (FillEmptyTile env pabyData) =
           replicate (IGetRasterCount env * nBlockXSize env * nBlockYSize env) (empty_value env)"
  using assms by (simp add: ReadTile_def take_FillEmptyTile)

theorem ReadTile_outside_matrix_witness:
  "ReadTile ex_env ex_oc 0 2 (replicate 4 (Fin 7)) ex_state =
     (True, [Fin 0, Fin 0, Fin 7, Fin 7], False, ex_state)"
  using ReadTile_outside_matrix [of 0 2 ex_env ex_oc "replicate 4 (Fin 7)" ex_state]
  by (simp add: ex_env_def FillEmptyTile_def FillBuffer_def memset_def numeral_eq_Suc)


section \<open>The host during a tile write\<close>

lemma WriteTile_traced_in_progress:
  "m_bInWriteTile st \<Longrightarrow> WriteTile_traced env oc st = ([], CE_Failure, st)"
  by (subst WriteTile_traced.simps) simp

lemma HostCalls_in_region:
  "m_bInWriteTile st \<Longrightarrow> 0 < nDisableDirtyBlockFlushCounter st \<Longrightarrow>
     HostCalls env oc calls st =
       (replicate (length (filter is_CallWriteTile calls)) CE_Failure, st)"
proof (induction calls)
  case Nil
  then show ?case by simp
next
  case (Cons c calls)
  then show ?case by (cases c) (simp_all add: WriteTile_traced_in_progress)
qed

lemma WriteTile_traced_eq:
  "WriteTile_traced env oc st =
     (if m_nTileInsertionCount st < 0 then ([], CE_Failure, st)
      else if m_bInWriteTile st then ([], CE_Failure, st)
      else
        (let st1 = st\<lparr>nDisableDirtyBlockFlushCounter := nDisableDirtyBlockFlushCounter st + 1,
                      m_bInWriteTile := True\<rparr>;
             (eErr, st2) = WriteTileInternal env oc st1
         in (replicate (length (filter is_CallWriteTile (host_calls oc))) CE_Failure, eErr,
             st2\<lparr>m_bInWriteTile := False,
                 nDisableDirtyBlockFlushCounter := nDisableDirtyBlockFlushCounter st2 - 1\<rparr>)))"
  by (subst WriteTile_traced.simps) (simp add: HostCalls_in_region Let_def split_beta)

lemma WriteTile_eq:
  "WriteTile env oc st =
     (if m_nTileInsertionCount st < 0 then (CE_Failure, st)
      else if m_bInWriteTile st then (CE_Failure, st)
      else
        (let st1 = st\<lparr>nDisableDirtyBlockFlushCounter := nDisableDirtyBlockFlushCounter st + 1,
                      m_bInWriteTile := True\<rparr>;
             (eErr, st2) = WriteTileInternal env oc st1
         in (eErr, st2\<lparr>m_bInWriteTile := False,
                       nDisableDirtyBlockFlushCounter := nDisableDirtyBlockFlushCounter st2 - 1\<rparr>)))"
  by (simp add: WriteTile_def WriteTile_traced_eq Let_def split_beta)

section \<open>The batch of a tile write\<close>

lemma quiet_refl [simp]: "quiet st st"
  by (simp add: quiet_def frame_eq_def batch_eq_def)

lemma quiet_trans: "quiet a b \<Longrightarrow> quiet b c \<Longrightarrow> quiet a c"
  by (simp add: quiet_def frame_eq_def batch_eq_def)

lemma quiet_sql_main: "s \<noteq> InsertTile \<Longrightarrow> quiet st (sql (MainDB s) st)"
  by (simp add: quiet_def frame_eq_def batch_eq_def sql_def commits_def upserts_def failed_commits_def)

lemma quiet_sql_temp: "quiet st (sql (TempDB s) st)"
  by (simp add: quiet_def frame_eq_def batch_eq_def sql_def commits_def upserts_def failed_commits_def)

lemma quiet_cache: "quiet st (st\<lparr>m_pabyCachedTiles := c\<rparr>)"
  by (simp add: quiet_def frame_eq_def batch_eq_def commits_def upserts_def failed_commits_def)

lemma quiet_descs: "quiet st (st\<lparr>m_asCachedTilesDesc := c\<rparr>)"
  by (simp add: quiet_def frame_eq_def batch_eq_def commits_def upserts_def failed_commits_def)

lemma quiet_db: "quiet st (st\<lparr>db := c\<rparr>)"
  by (simp add: quiet_def frame_eq_def batch_eq_def commits_def upserts_def failed_commits_def)

lemma quiet_poCT: "quiet st (st\<lparr>m_poCT := c\<rparr>)"
  by (simp add: quiet_def frame_eq_def batch_eq_def commits_def upserts_def failed_commits_def)

lemma quiet_ProbeColorTable:
  "s \<noteq> InsertTile \<Longrightarrow> quiet st (snd (ProbeColorTable oc i s st))"
  by (simp add: ProbeColorTable_def Let_def quiet_def frame_eq_def batch_eq_def commits_def
      upserts_def failed_commits_def sql_def split: ct_probe.splits)

lemma quiet_GetColorTable: "quiet st (GetColorTable env oc st)"
proof -
  let ?st0 = "st\<lparr>m_bTriedEstablishingCT := True\<rparr>"
  let ?st1 = "snd (ProbeColorTable oc 0 SelectAnyTile ?st0)"
  have 0: "quiet st ?st0"
    by (simp add: quiet_def frame_eq_def batch_eq_def commits_def upserts_def failed_commits_def)
  have 1: "quiet st ?st1"
    by (rule quiet_trans [OF 0 quiet_ProbeColorTable]) simp
  have 2: "quiet st (snd (ProbeColorTable oc 1 SelectMiddleTile ?st1))"
    by (rule quiet_trans [OF 1 quiet_ProbeColorTable]) simp
  show ?thesis using 1 2 by (simp add: GetColorTable_def split_beta)
qed

lemma quiet_DecoderColorTable: "quiet st (DecoderColorTable env oc b e st)"
  by (simp add: DecoderColorTable_def quiet_GetColorTable split: option.splits)

lemma quiet_GetTileOffsetAndScale:
  "quiet st (snd (GetTileOffsetAndScale env oc i st))"
  by (simp add: GetTileOffsetAndScale_def quiet_sql_main)

lemmas quiet_defs = quiet_def frame_eq_def batch_eq_def commits_def upserts_def failed_commits_def sql_def

lemma quiet_ReadTile:
  assumes r: "ReadTile env oc row col buf st = (ok, buf', lossy, st')"
  shows "quiet st st'"
proof -
  let ?st1 = "sql (MainDB SelectTile) st"
  have q1: "quiet st ?st1" by (simp add: quiet_sql_main)
  have q2: "quiet st (sql (TempDB SelectPartial) ?st1)"
    by (rule quiet_trans [OF q1 quiet_sql_temp])
  have q3: "\<And>i b e. quiet st (DecoderColorTable env oc b e (snd (GetTileOffsetAndScale env oc i ?st1)))"
    by (rule quiet_trans [OF quiet_trans [OF q1 quiet_GetTileOffsetAndScale]
          quiet_DecoderColorTable])
  have "st' = st \<or> st' = ?st1 \<or> st' = sql (TempDB SelectPartial) ?st1 \<or>
        (\<exists>i b e. st' = DecoderColorTable env oc b e (snd (GetTileOffsetAndScale env oc i ?st1)))"
    using r
    by (auto simp: ReadTile_def Let_def split_beta split: option.splits if_splits)
  then show ?thesis using q1 q2 q3 by auto
qed

lemma quiet_FetchNonDirtyBands:
  "FetchNonDirtyBands env oc row col st = (lossy, st') \<Longrightarrow> quiet st st'"
  unfolding FetchNonDirtyBands_def Let_def
  by (auto split: prod.splits dest!: quiet_ReadTile simp: quiet_defs)

lemma quiet_DeleteTile: "quiet st (snd (DeleteTile env oc row col st))"
  by (simp add: DeleteTile_def Let_def quiet_defs)

lemma quiet_GetTileId: "quiet st (snd (GetTileId env oc row col st))"
  by (simp add: GetTileId_def Let_def quiet_defs)

lemma quiet_DeleteFromGriddedTileAncillary:
  "quiet st (DeleteFromGriddedTileAncillary oc i st)"
  by (simp add: DeleteFromGriddedTileAncillary_def Let_def quiet_defs)

lemma quiet_InsertGriddedTileAncillary:
  "quiet st (snd (InsertGriddedTileAncillary env oc row col anc e st))"
  by (simp add: InsertGriddedTileAncillary_def GetTileId_def DeleteFromGriddedTileAncillary_def
      Let_def quiet_defs split: prod.splits)


lemma quiet_step: "quiet a b \<Longrightarrow> frame_eq b c \<and> batch_step oc b e c \<Longrightarrow> frame_eq a c \<and> batch_step oc a e c"
  by (auto simp: quiet_def frame_eq_def batch_eq_def batch_step_def)

lemma step_quiet: "frame_eq a b \<and> batch_step oc a e b \<Longrightarrow> quiet b c \<Longrightarrow> frame_eq a c \<and> batch_step oc a e c"
  by (auto simp: quiet_def frame_eq_def batch_eq_def batch_step_def)

lemma quiet_is_step: "quiet a b \<Longrightarrow> frame_eq a b \<and> batch_step oc a e b"
  by (auto simp: quiet_def batch_step_def)

lemma BatchTransaction_fail:
  "BatchTransaction oc st = (False, st1) \<Longrightarrow>
     frame_eq st st1 \<and> batch_step oc st CE_Failure st1"
  by (auto simp: BatchTransaction_def Let_def batch_step_def quiet_defs split: if_splits)

lemma Batch_Insert_step:
  "BatchTransaction oc st = (True, st1) \<Longrightarrow> InsertOrReplaceTile env oc row col b st1 = (e, st2) \<Longrightarrow>
     frame_eq st st2 \<and> batch_step oc st e' st2"
  by (auto simp: BatchTransaction_def InsertOrReplaceTile_def Let_def batch_step_def quiet_defs
      split: if_splits)

lemma EncodeTile_step:
  assumes a: "EncodeTile env oc row col ad st = (e, st')"
  shows "frame_eq st st' \<and> batch_step oc st e st'"
proof (cases "driver_found oc")
  case False
  then have "st' = st" using a by (simp add: EncodeTile_def)
  then show ?thesis by (simp add: quiet_is_step)
next
  case drv: True
  show ?thesis
  proof (cases "(m_eTF env = GPKG_TF_PNG_16BIT \<or> m_eTF env = GPKG_TF_TIFF_32BIT_FLOAT) \<and>
                CountValidPixels env (m_pabyCachedTiles st) = 0")
    case True
    let ?st1 = "snd (GetTileId env oc row col st)"
    have "st' = ?st1 \<or>
          st' = DeleteFromGriddedTileAncillary oc (fst (GetTileId env oc row col st))
                  (snd (DeleteTile env oc row col ?st1))"
      using a drv True by (auto simp: EncodeTile_def Let_def split_beta split: if_splits)
    then have "quiet st st'"
      using quiet_GetTileId [of st env oc row col]
        quiet_trans [OF quiet_GetTileId quiet_trans [OF quiet_DeleteTile quiet_DeleteFromGriddedTileAncillary]]
      by blast
    then show ?thesis by (simp add: quiet_is_step)
  next
    case nv: False
    obtain ob cache where
      cc: "CreateCopy env row col (m_poCT st) ad (m_pabyCachedTiles st) = (ob, cache)"
      by force
    let ?st0 = "st\<lparr>m_pabyCachedTiles := cache\<rparr>"
    have q0: "quiet st ?st0" by (rule quiet_cache)
    show ?thesis
    proof (cases ob)
      case None
      then have "st' = ?st0" using a drv nv cc by (auto simp: EncodeTile_def)
      then show ?thesis using q0 by (simp add: quiet_is_step)
    next
      case (Some blob)
      obtain ok st1 where bt: "BatchTransaction oc ?st0 = (ok, st1)" by force
      show ?thesis
      proof (cases ok)
        case False
        then have "e = CE_Failure" "st' = st1"
          using a drv nv cc Some bt by (auto simp: EncodeTile_def)
        moreover have "BatchTransaction oc ?st0 = (False, st1)" using bt False by simp
        ultimately show ?thesis
          using quiet_step [OF q0 BatchTransaction_fail] by simp
      next
        case True
        obtain e1 st2 where ins: "InsertOrReplaceTile env oc row col blob st1 = (e1, st2)" by force
        have fin: "InsertGriddedTileAncillary env oc row col
                     (TileStatistics env (m_pabyCachedTiles st)) e1 st2 = (e, st')"
          using a drv nv cc Some bt True ins by (auto simp: EncodeTile_def)
        have "quiet st2 st'"
          using quiet_InsertGriddedTileAncillary [of st2 env oc row col _ e1] fin
          by (metis snd_conv)
        moreover have "BatchTransaction oc ?st0 = (True, st1)" using bt True by simp
        ultimately show ?thesis
          using step_quiet [OF quiet_step [OF q0 Batch_Insert_step [OF _ ins]]] by simp
      qed
    qed
  qed
qed

lemma EncodeAndStore_step:
  assumes a: "EncodeAndStore env oc row col ad st = (e, st')"
  shows "frame_eq st st' \<and> batch_step oc st e st'"
proof -
  let ?st0 = "if IGetRasterCount env = 1 \<and> m_eDT env = GDT_Byte then GetColorTable env oc st else st"
  have q: "quiet st ?st0" by (simp add: quiet_GetColorTable)
  have "EncodeTile env oc row col ad ?st0 = (e, st')"
    using a by (simp add: EncodeAndStore_def)
  from quiet_step [OF q EncodeTile_step [OF this]] show ?thesis .
qed

lemma WriteTileInternal_step:
  assumes w: "WriteTileInternal env oc st = (e, st')"
  shows "frame_eq st st' \<and> batch_step oc st e st'"
proof -
  let ?d0 = "m_asCachedTilesDesc st ! 0"
  let ?guard = "IGetUpdate env \<and> nRow ?d0 \<ge> 0 \<and> nCol ?d0 \<ge> 0 \<and> nIdxWithinTileData ?d0 = 0"
  show ?thesis
  proof (cases "?guard \<and> \<not> bAllNonDirty env st")
    case False
    then have "st' = st" using w by (auto simp: WriteTileInternal_def Let_def split: if_splits)
    then show ?thesis by (simp add: quiet_is_step)
  next
    case True
    obtain lossy st1 where f:
      "(if \<not> bAllDirty env st then FetchNonDirtyBands env oc (nRow ?d0) (nCol ?d0) st else (False, st))
         = (lossy, st1)"
      by force
    have q1: "quiet st st1"
      using f quiet_FetchNonDirtyBands by (auto split: if_splits)
    let ?out = "int32 ((nCol ?d0 - m_nShiftXTiles env) * int (nBlockXSize env)
                         - int (m_nShiftXPixelsMod env)) \<ge> nRasterXSize env \<or>
                int32 ((nRow ?d0 - m_nShiftYTiles env) * int (nBlockYSize env)
                         - int (m_nShiftYPixelsMod env)) \<ge> nRasterYSize env"
    let ?st2 = "st1\<lparr>m_asCachedTilesDesc :=
                      (m_asCachedTilesDesc st1)[0 := clear_desc (m_asCachedTilesDesc st1 ! 0)]\<rparr>"
    have q2: "quiet st ?st2"
      using q1 by (simp add: quiet_defs)
    show ?thesis
    proof (cases ?out)
      case out: True
      then have "st' = st1" using w True f by (simp add: WriteTileInternal_def Let_def)
      then show ?thesis using q1 by (simp add: quiet_is_step)
    next
      case out: False
      show ?thesis
      proof (cases "IsEmptyTile env (m_poCT ?st2) (bAllDirty env st) (m_pabyCachedTiles ?st2)")
        case e: True
        then have "st' = snd (DeleteTile env oc (nRow ?d0) (nCol ?d0) ?st2)"
          using w True f out by (simp add: WriteTileInternal_def Let_def)
        then show ?thesis
          using quiet_trans [OF q2 quiet_DeleteTile] by (simp add: quiet_is_step)
      next
        case e: False
        then have "EncodeAndStore env oc (nRow ?d0) (nCol ?d0) (bAllDirty env st) ?st2 = (e, st')"
          using w True f out by (simp add: WriteTileInternal_def Let_def)
        then show ?thesis
          using quiet_step [OF q2 EncodeAndStore_step] by blast
      qed
    qed
  qed
qed

lemma WriteTile_step:
  assumes w: "WriteTile env oc st = (e, st')"
  shows "frame_eq st st' \<and> batch_step oc st e st'"
proof (cases "m_nTileInsertionCount st < 0 \<or> m_bInWriteTile st")
  case True
  then have "st' = st" using w by (auto simp: WriteTile_eq split: if_splits)
  then show ?thesis by (simp add: quiet_is_step)
next
  case False
  let ?st1 = "st\<lparr>nDisableDirtyBlockFlushCounter := nDisableDirtyBlockFlushCounter st + 1,
                   m_bInWriteTile := True\<rparr>"
  obtain st2 where i: "WriteTileInternal env oc ?st1 = (e, st2)"
    and s: "st' = st2\<lparr>m_bInWriteTile := False,
                       nDisableDirtyBlockFlushCounter := nDisableDirtyBlockFlushCounter st2 - 1\<rparr>"
    using w False by (auto simp: WriteTile_eq Let_def split: prod.splits)
  from WriteTileInternal_step [OF i] show ?thesis
    using False s by (auto simp: batch_step_def quiet_defs)
qed


lemma batch_eq_bview: "batch_eq st st' = (bview st' = bview st)"
  by (auto simp: batch_eq_def bview_def)

lemma bview_simps [simp]:
  "bview (sql (TempDB s) st) = bview st"
  "s \<noteq> InsertTile \<Longrightarrow> bview (sql (MainDB s) st) = bview st"
  "bview (st\<lparr>m_pabyCachedTiles := c\<rparr>) = bview st"
  "bview (st\<lparr>m_asCachedTilesDesc := ds\<rparr>) = bview st"
  "bview (st\<lparr>db := d\<rparr>) = bview st"
  "bview (st\<lparr>m_hTempDB := t\<rparr>) = bview st"
  "bview (st\<lparr>m_nAge := a\<rparr>) = bview st"
  "bview (st\<lparr>m_nLastSpaceCheckTimestamp := ts\<rparr>) = bview st"
  "bview (map_tempdb f st) = bview st"
  by (simp_all add: bview_def commits_def upserts_def failed_commits_def sql_def map_tempdb_def)

lemma quiet_bview: "quiet st st' \<Longrightarrow> bview st' = bview st"
  by (simp add: quiet_def batch_eq_bview)

lemma bview_DecoderColorTable [simp]: "bview (DecoderColorTable env oc b e st) = bview st"
  using quiet_DecoderColorTable by (rule quiet_bview)

lemma bview_MergePersistedTile [simp]: "bview (MergePersistedTile env oc p st) = bview st"
  by (simp add: MergePersistedTile_def Let_def GetTileOffsetAndScale_def split_beta
      split: option.splits)

lemma WriteTile_wstep:
  assumes "WriteTile env oc st = (e, st')"
  shows "wstep oc st e st'"
proof (cases "m_nTileInsertionCount st < 0")
  case True
  then show ?thesis using assms by (simp add: WriteTile_eq wstep_def)
next
  case False
  then show ?thesis using WriteTile_step [OF assms] by (simp add: wstep_def)
qed

lemma wstep_bview: "bview a' = bview a \<Longrightarrow> bview b' = bview b \<Longrightarrow> wstep oc a e b \<Longrightarrow> wstep oc a' e b'"
  by (auto simp: wstep_def batch_step_def batch_eq_def bview_def)

lemma FlushOneShiftedTile_wstep:
  assumes a: "FlushOneShiftedTile env oc bPartialFlush p st = (e, st')"
  shows "wstep oc st e st'"
proof -
  let ?st3 = "(if pt_partial_flag p \<noteq> nFullFlags env
               then MergePersistedTile env oc p
                      (st\<lparr>m_pabyCachedTiles := load_partial_bands env p (m_pabyCachedTiles st)\<rparr>)
               else st\<lparr>m_pabyCachedTiles := load_partial_bands env p (m_pabyCachedTiles st)\<rparr>)"
  let ?st3' = "?st3\<lparr>m_asCachedTilesDesc :=
                      (m_asCachedTilesDesc ?st3)[0 := dirty_desc (pt_tile_row p) (pt_tile_column p)]\<rparr>"
  obtain e4 st4 where w: "WriteTile env oc ?st3' = (e4, st4)" by force
  have b3: "bview ?st3' = bview st" by simp
  have "e = e4 \<and> bview st' = bview st4"
    using a w by (auto simp: FlushOneShiftedTile_def Let_def split: if_splits)
  then show ?thesis
    using wstep_bview [OF b3 [symmetric] _ WriteTile_wstep [OF w], of st'] by simp
qed

lemma wstep_inv: "batch_inv st0 st \<Longrightarrow> wstep oc st e st' \<Longrightarrow> batch_inv st0 st'"
  by (auto simp: batch_inv_def binv_def bview_def wstep_def batch_step_def batch_eq_def
      split: if_splits)

lemma flush_rows_inv:
  "batch_inv st0 st \<Longrightarrow> flush_rows env ocs b n k rows c st = (e, c', w, st') \<Longrightarrow> batch_inv st0 st'"
proof (induction rows arbitrary: k c st e c' w st')
  case Nil
  then show ?case by simp
next
  case (Cons p rows)
  show ?case
  proof (cases "b \<and> bFoundDirtyBlock env (ocs k) p")
    case True
    then show ?thesis using Cons by simp
  next
    case nd: False
    show ?thesis
    proof (cases "b \<and> Suc c \<ge> n div 2")
      case True
      then show ?thesis using Cons nd by auto
    next
      case False
      obtain e1 st1 where f: "FlushOneShiftedTile env (ocs k) b p st = (e1, st1)" by force
      have i1: "batch_inv st0 st1"
        using wstep_inv [OF Cons.prems(1) FlushOneShiftedTile_wstep [OF f]] .
      show ?thesis
      proof (cases "e1 = CE_None")
        case True
        obtain e2 c2 w2 st2 where
          r: "flush_rows env ocs b n (Suc k) rows (Suc c) st1 = (e2, c2, w2, st2)"
          by (metis prod_cases4)
        then have "st' = st2" using Cons.prems(2) nd False f True by auto
        then show ?thesis using Cons.IH [OF i1 r] by simp
      next
        case ne: False
        then have "st' = st1" using Cons.prems(2) nd False f by auto
        then show ?thesis using i1 by simp
      qed
    qed
  qed
qed


lemma wstep_fail:
  "0 \<le> m_nTileInsertionCount st \<Longrightarrow> wstep oc st e st' \<Longrightarrow> no_failure_or_poison st e st'"
  by (auto simp: wstep_def batch_step_def batch_eq_def no_failure_or_poison_def)

lemma flush_rows_fail:
  "0 \<le> m_nTileInsertionCount st \<Longrightarrow>
   flush_rows env ocs b n k rows c st = (e, c', w, st') \<Longrightarrow> no_failure_or_poison st e st'"
proof (induction rows arbitrary: k c st e c' w st')
  case Nil
  then show ?case by (simp add: no_failure_or_poison_def)
next
  case (Cons p rows)
  show ?case
  proof (cases "b \<and> bFoundDirtyBlock env (ocs k) p")
    case True
    then show ?thesis using Cons by simp
  next
    case nd: False
    show ?thesis
    proof (cases "b \<and> Suc c \<ge> n div 2")
      case True
      then show ?thesis using Cons nd by (auto simp: no_failure_or_poison_def)
    next
      case False
      obtain e1 st1 where f: "FlushOneShiftedTile env (ocs k) b p st = (e1, st1)" by force
      have i1: "no_failure_or_poison st e1 st1"
        using wstep_fail [OF Cons.prems(1) FlushOneShiftedTile_wstep [OF f]] .
      show ?thesis
      proof (cases "e1 = CE_None")
        case True
        obtain e2 c2 w2 st2 where
          r: "flush_rows env ocs b n (Suc k) rows (Suc c) st1 = (e2, c2, w2, st2)"
          by (metis prod_cases4)
        then have eq: "e = e2 \<and> st' = st2" using Cons.prems(2) nd False f True by auto
        have "failed_commits st1 = failed_commits st \<and> 0 \<le> m_nTileInsertionCount st1"
          using i1 True by (simp add: no_failure_or_poison_def)
        then show ?thesis
          using Cons.IH [OF _ r] eq by (auto simp: no_failure_or_poison_def)
      next
        case ne: False
        then have "st' = st1 \<and> e = e1" using Cons.prems(2) nd False f by auto
        then show ?thesis using i1 by simp
      qed
    qed
  qed
qed

lemma FlushRemainingShiftedTiles_cases:
  assumes "FlushRemainingShiftedTiles env oc ocs b st = (e, st')"
  shows "bview st' = bview st \<or>
         (\<exists>sta n rows c' w stb. bview sta = bview st \<and>
            flush_rows env ocs b n 0 rows 0 sta = (e, c', w, stb) \<and> bview st' = bview stb)"
proof (cases "m_hTempDB st")
  case None
  then show ?thesis using assms by (simp add: FlushRemainingShiftedTiles_def)
next
  case (Some rows)
  show ?thesis
  proof (cases "prepare_ok oc SelectPartialAll")
    case False
    then have "bview st' = bview st"
      using assms Some by (auto simp: FlushRemainingShiftedTiles_def Let_def)
    then show ?thesis by simp
  next
    case True
    let ?sta = "sql (TempDB SelectPartialAll)
                  (if b then sql (TempDB SelectPartialCount)
                               (st\<lparr>m_asCachedTilesDesc := reset_slots [0, 1, 2, 3] (m_asCachedTilesDesc st)\<rparr>)
                   else st\<lparr>m_asCachedTilesDesc := reset_slots [0, 1, 2, 3] (m_asCachedTilesDesc st)\<rparr>)"
    let ?n = "if b \<and> exec_ok oc SelectPartialCount then length (active_partial env rows) else 0"
    let ?sel = "if step_rc oc SelectPartialAll = SQLITE_OK
                then (if b then sort_key pt_age (active_partial env rows) else active_partial env rows)
                else []"
    obtain e1 c1 w1 st1 where f: "flush_rows env ocs b ?n 0 ?sel 0 ?sta = (e1, c1, w1, st1)"
      by (metis prod_cases4)
    have "e = e1 \<and> bview st' = bview st1"
      using assms Some True f
      by (auto simp: FlushRemainingShiftedTiles_def Let_def split: if_splits)
    moreover have "bview ?sta = bview st" by simp
    ultimately show ?thesis using f by blast
  qed
qed

lemma batch_inv_bview: "bview a = bview b \<Longrightarrow> batch_inv st0 a = batch_inv st0 b"
  by (simp add: batch_inv_def)

lemma FlushRemainingShiftedTiles_inv:
  assumes "batch_inv st0 st" "FlushRemainingShiftedTiles env oc ocs b st = (e, st')"
  shows "batch_inv st0 st'"
  using FlushRemainingShiftedTiles_cases [OF assms(2)] assms(1)
  by (metis batch_inv_bview flush_rows_inv)

lemma no_failure_or_poison_bview:
  "bview a = bview a' \<Longrightarrow> bview b = bview b' \<Longrightarrow> no_failure_or_poison a e b \<Longrightarrow>
     no_failure_or_poison a' e b'"
  by (auto simp: no_failure_or_poison_def bview_def)

lemma FlushRemainingShiftedTiles_fail:
  assumes "0 \<le> m_nTileInsertionCount st"
    "FlushRemainingShiftedTiles env oc ocs b st = (e, st')"
  shows "no_failure_or_poison st e st'"
proof -
  from FlushRemainingShiftedTiles_cases [OF assms(2)]
  consider "bview st' = bview st"
    | sta n rows c' w stb where "bview sta = bview st"
        "flush_rows env ocs b n 0 rows 0 sta = (e, c', w, stb)" "bview st' = bview stb"
    by blast
  then show ?thesis
  proof cases
    case 1
    then show ?thesis using assms(1) by (auto simp: no_failure_or_poison_def bview_def)
  next
    case 2
    have "0 \<le> m_nTileInsertionCount sta" using 2(1) assms(1) by (simp add: bview_def)
    from flush_rows_fail [OF this 2(2)]
    show ?thesis using no_failure_or_poison_bview [OF 2(1) 2(3) [symmetric]] by blast
  qed
qed


lemma DoPartialFlush_cases:
  assumes "DoPartialFlushOfPartialTilesIfNecessary env oc ocs st = (e, st')"
  shows "bview st' = bview st \<or>
         (\<exists>sta e1 stb. bview sta = bview st \<and>
            FlushRemainingShiftedTiles env oc ocs True sta = (e1, stb) \<and> bview st' = bview stb)"
proof -
  let ?st1 = "if m_nLastSpaceCheckTimestamp st = 0
              then st\<lparr>m_nLastSpaceCheckTimestamp := time_now oc\<rparr> else st"
  let ?st2 = "?st1\<lparr>m_nLastSpaceCheckTimestamp := time_now oc\<rparr>"
  obtain e1 stb where f: "FlushRemainingShiftedTiles env oc ocs True ?st2 = (e1, stb)" by force
  have b: "bview ?st2 = bview st" by simp
  have "bview st' = bview st \<or> bview st' = bview stb"
    using assms f
    by (auto simp: DoPartialFlushOfPartialTilesIfNecessary_def Let_def
        split: if_splits option.splits)
  then show ?thesis using f b by blast
qed

lemma DoPartialFlush_inv:
  assumes "batch_inv st0 st" "DoPartialFlushOfPartialTilesIfNecessary env oc ocs st = (e, st')"
  shows "batch_inv st0 st'"
  using DoPartialFlush_cases [OF assms(2)] assms(1)
  by (metis batch_inv_bview FlushRemainingShiftedTiles_inv)

lemma bview_assemble_bands [simp]:
  "bview (snd (assemble_bands env oc nBand i bands st)) = bview st"
  by (induction bands arbitrary: st) (auto simp: Let_def split: option.splits)

lemma CompleteShiftedTile_inv:
  assumes i: "batch_inv st0 st"
    and c: "CompleteShiftedTile env oc ocs row col nBand i st = (e, st')"
  shows "batch_inv st0 st'"
proof -
  obtain ok st1 where a: "assemble_bands env oc nBand i [1..<Suc (IGetRasterCount env)] st = (ok, st1)"
    by force
  have b1: "bview st1 = bview st"
    using bview_assemble_bands [of env oc nBand i "[1..<Suc (IGetRasterCount env)]" st]
    unfolding a by (simp only: snd_conv)
  show ?thesis
  proof (cases ok)
    case False
    then have "st' = st1" using c a by (simp add: CompleteShiftedTile_def)
    then show ?thesis using i b1 by (simp add: batch_inv_def)
  next
    case True
    let ?st2 = "sql (TempDB UpdatePartialDead)
                  (st1\<lparr>m_asCachedTilesDesc := (m_asCachedTilesDesc st1)[0 := dirty_desc row col]\<rparr>)"
    let ?st3 = "if exec_ok oc UpdatePartialDead
                then map_tempdb (map (\<lambda>p. if pt_id p = i then mark_dead env p else p)) ?st2
                else ?st2"
    obtain e4 st4 where w: "WriteTile env oc ?st3 = (e4, st4)" by force
    obtain e5 st5 where d: "DoPartialFlushOfPartialTilesIfNecessary env oc ocs st4 = (e5, st5)"
      by force
    have "st' = st5" using c a True w d by (simp add: CompleteShiftedTile_def Let_def)
    moreover have "batch_inv st0 ?st3" using i b1 by (simp add: batch_inv_def)
    ultimately show ?thesis
      using DoPartialFlush_inv [OF wstep_inv [OF _ WriteTile_wstep [OF w]] d] by simp
  qed
qed

lemma bview_find_reusable [simp]: "bview (snd (find_reusable env oc row col st)) = bview st"
  by (simp add: find_reusable_def Let_def)

lemma StorePartialTile_inv:
  assumes i: "batch_inv st0 st"
    and c: "StorePartialTile env oc ocs row col nBand nId fl st = (e, st')"
  shows "batch_inv st0 st'"
proof -
  let ?r = "if nId = 0 then find_reusable env oc row col st else (nId, st)"
  let ?st1 = "snd ?r"
  let ?stmt = "if fst ?r = 0 then InsertPartial else UpdatePartial"
  let ?st2 = "sql (TempDB ?stmt) (?st1\<lparr>m_nAge := m_nAge ?st1 + 1\<rparr>)"
  let ?blob = "take (nBandBlockSize env)
                 (drop (nTileBands env * nBandBlockSize env + (nBand - 1) * nBandBlockSize env)
                    (m_pabyCachedTiles ?st2))"
  let ?st3 = "if step_rc oc ?stmt = SQLITE_OK
              then map_tempdb (upsert_partial env (fst ?r) row col nBand ?blob fl (m_nAge ?st1)) ?st2
              else ?st2"
  have b2: "bview ?st2 = bview st" by simp
  have b3: "bview ?st3 = bview st" by simp
  show ?thesis
  proof (cases "prepare_ok oc ?stmt")
    case False
    then have "st' = ?st2" using c by (simp add: StorePartialTile_def Let_def split_beta)
    then show ?thesis using i b2 by (simp add: batch_inv_def)
  next
    case True
    then have "snd (StorePartialTile env oc ocs row col nBand nId fl st) =
                 snd (DoPartialFlushOfPartialTilesIfNecessary env oc ocs ?st3)"
      by (simp add: StorePartialTile_def Let_def split_beta)
    then have d: "st' = snd (DoPartialFlushOfPartialTilesIfNecessary env oc ocs ?st3)"
      unfolding c by (simp only: snd_conv)
    have "batch_inv st0 ?st3" using i b3 by (simp only: batch_inv_def)
    then show ?thesis using DoPartialFlush_inv [OF _ surjective_pairing] d by simp
  qed
qed


lemma WriteShiftedTile_inv:
  assumes i: "batch_inv st0 st"
    and c: "WriteShiftedTile env oc ocs row col nBand x y xs ys st = (e, st')"
  shows "batch_inv st0 st'"
proof (cases "m_hTempDB st = None \<and> \<not> (tempdb_open_ok oc \<and> tempdb_open_handle oc)")
  case True
  then have "bview st' = bview st" using c by (auto simp: WriteShiftedTile_def)
  then show ?thesis using i by (simp add: batch_inv_def)
next
  case open_ok: False
  let ?rows = "case m_hTempDB st of None \<Rightarrow> [] | Some rs \<Rightarrow> rs"
  let ?st1 = "sql (TempDB SelectPartial)
                (st\<lparr>m_hTempDB := Some ?rows,
                    m_asCachedTilesDesc := reset_slots [1, 2, 3] (m_asCachedTilesDesc st)\<rparr>)"
  have b1: "bview ?st1 = bview st" by simp
  show ?thesis
  proof (cases "prepare_ok oc SelectPartial")
    case False
    then have "snd (WriteShiftedTile env oc ocs row col nBand x y xs ys st) = ?st1"
      by (subst WriteShiftedTile_def, subst if_not_P [OF open_ok]) (simp add: Let_def)
    then have "st' = ?st1" unfolding c by (simp only: snd_conv)
    then show ?thesis using i b1 by (simp only: batch_inv_def)
  next
    case True
    let ?existing = "if step_rc oc SelectPartial = SQLITE_OK
                     then find_partial (m_nZoomLevel env) row col ?rows else None"
    let ?id = "case ?existing of None \<Rightarrow> 0 | Some p \<Rightarrow> pt_id p"
    let ?old = "case ?existing of None \<Rightarrow> 0 | Some p \<Rightarrow> pt_partial_flag p"
    let ?st2 = "?st1\<lparr>m_pabyCachedTiles :=
                       stage_band env ?existing nBand x y xs ys (m_pabyCachedTiles ?st1)\<rparr>"
    let ?fl = "push_bit (4 * (nBand - 1)) (iQuadrantFlag env x y xs ys) OR ?old"
    have b2: "bview ?st2 = bview st" by simp
    then have i2: "batch_inv st0 ?st2" using i by (simp only: batch_inv_def)
    have "WriteShiftedTile env oc ocs row col nBand x y xs ys st =
            (if ?fl = nFullFlags env
             then CompleteShiftedTile env oc ocs row col nBand ?id ?st2
             else StorePartialTile env oc ocs row col nBand ?id ?fl ?st2)"
      using True by (subst WriteShiftedTile_def, subst if_not_P [OF open_ok]) (simp add: Let_def)
    then have "CompleteShiftedTile env oc ocs row col nBand ?id ?st2 = (e, st') \<or>
               StorePartialTile env oc ocs row col nBand ?id ?fl ?st2 = (e, st')"
      unfolding c by metis
    then show ?thesis
      using CompleteShiftedTile_inv [OF i2] StorePartialTile_inv [OF i2] by blast
  qed
qed

lemma apply_op_inv: "batch_inv st0 st \<Longrightarrow> batch_inv st0 (apply_op env op st)"
proof (cases op)
  case (HostWriteTile ds c oc)
  assume i: "batch_inv st0 st"
  have "batch_inv st0 (host_store ds c st)"
    using i by (simp add: batch_inv_def host_store_def)
  from wstep_inv [OF this WriteTile_wstep [OF surjective_pairing]]
  show ?thesis using HostWriteTile by simp
next
  case (HostWriteShiftedTile ds c oc ocs row col nBand x y xs ys)
  assume i: "batch_inv st0 st"
  have "batch_inv st0 (host_store ds c st)"
    using i by (simp add: batch_inv_def host_store_def)
  from WriteShiftedTile_inv [OF this surjective_pairing]
  show ?thesis using HostWriteShiftedTile by simp
qed

lemma run_inv: "batch_inv st0 st \<Longrightarrow> batch_inv st0 (run env ops st)"
  unfolding run_def by (induction ops arbitrary: st) (simp_all add: apply_op_inv)

lemma batch_inv_init: "m_nTileInsertionCount st0 = 0 \<Longrightarrow> batch_inv st0 st0"
  by (simp add: batch_inv_def binv_def bview_def)


section \<open>Transactions\<close>

lemma WriteTile_poisoned: "m_nTileInsertionCount st < 0 \<Longrightarrow> WriteTile env oc st = (CE_Failure, st)"
  by (simp add: WriteTile_eq)

lemma FlushTiles_poisoned:
  "m_nTileInsertionCount st < 0 \<Longrightarrow> FlushTiles env oc ocw ocs st = (CE_Failure, st)"
  by (simp add: FlushTiles_def)

lemma FlushTiles_final:
  assumes "0 \<le> m_nTileInsertionCount st"
    "(if IGetUpdate env
      then (if shifted env then FlushRemainingShiftedTiles env ocw ocs False st
            else WriteTile env ocw st)
      else (CE_None, st)) = (e1, st1)"
  shows "FlushTiles env oc ocw ocs st =
           (if m_nTileInsertionCount st1 > 0
            then (if commit_ok oc
                  then (e1, st1\<lparr>db_log := db_log st1 @ [CommitTransaction],
                                 m_nTileInsertionCount := 0\<rparr>)
                  else (CE_Failure, st1\<lparr>db_log := db_log st1 @ [CommitTransaction, CommitFailed],
                                         m_nTileInsertionCount := - 1\<rparr>))
            else (e1, st1))"
  using assms by (simp add: FlushTiles_def Let_def sql_def)

lemma FlushTiles_inner:
  assumes "FlushTiles env oc ocw ocs st = (e, st')" "0 \<le> m_nTileInsertionCount st"
  obtains e1 st1 where
    "(if IGetUpdate env
      then (if shifted env then FlushRemainingShiftedTiles env ocw ocs False st
            else WriteTile env ocw st)
      else (CE_None, st)) = (e1, st1)"
    "(e, st') = (if m_nTileInsertionCount st1 > 0
                 then (if commit_ok oc
                       then (e1, st1\<lparr>db_log := db_log st1 @ [CommitTransaction],
                                      m_nTileInsertionCount := 0\<rparr>)
                       else (CE_Failure,
                             st1\<lparr>db_log := db_log st1 @ [CommitTransaction, CommitFailed],
                                 m_nTileInsertionCount := - 1\<rparr>))
                 else (e1, st1))"
proof -
  obtain e1 st1 where i:
    "(if IGetUpdate env
      then (if shifted env then FlushRemainingShiftedTiles env ocw ocs False st
            else WriteTile env ocw st)
      else (CE_None, st)) = (e1, st1)"
    by force
  from FlushTiles_final [OF assms(2) i, of oc] assms(1) that i show ?thesis by simp
qed

lemma FlushTiles_inner_inv:
  assumes "batch_inv st0 st"
    "(if IGetUpdate env
      then (if shifted env then FlushRemainingShiftedTiles env oc ocs False st
            else WriteTile env oc st)
      else (CE_None, st)) = (e1, st1)"
  shows "batch_inv st0 st1"
proof (cases "IGetUpdate env")
  case False
  then show ?thesis using assms by simp
next
  case True
  show ?thesis
  proof (cases "shifted env")
    case True
    then show ?thesis using assms \<open>IGetUpdate env\<close> FlushRemainingShiftedTiles_inv by simp
  next
    case False
    then show ?thesis
      using assms \<open>IGetUpdate env\<close> wstep_inv [OF _ WriteTile_wstep] by simp
  qed
qed

lemma FlushTiles_inner_fail:
  assumes "0 \<le> m_nTileInsertionCount st"
    "(if IGetUpdate env
      then (if shifted env then FlushRemainingShiftedTiles env oc ocs False st
            else WriteTile env oc st)
      else (CE_None, st)) = (e1, st1)"
  shows "no_failure_or_poison st e1 st1"
proof (cases "IGetUpdate env")
  case False
  then show ?thesis using assms by (auto simp: no_failure_or_poison_def)
next
  case True
  show ?thesis
  proof (cases "shifted env")
    case True
    then show ?thesis
      using assms \<open>IGetUpdate env\<close> FlushRemainingShiftedTiles_fail by simp
  next
    case False
    then show ?thesis
      using assms \<open>IGetUpdate env\<close> wstep_fail [OF _ WriteTile_wstep] by simp
  qed
qed

lemma log_commit [simp]:
  "commits (st\<lparr>db_log := db_log st @ [CommitTransaction], m_nTileInsertionCount := n\<rparr>) =
     Suc (commits st)"
  "upserts (st\<lparr>db_log := db_log st @ [CommitTransaction], m_nTileInsertionCount := n\<rparr>) =
     upserts st"
  "failed_commits (st\<lparr>db_log := db_log st @ [CommitTransaction], m_nTileInsertionCount := n\<rparr>) =
     failed_commits st"
  "commits (st\<lparr>db_log := db_log st @ [CommitTransaction, CommitFailed],
               m_nTileInsertionCount := n\<rparr>) = Suc (commits st)"
  "upserts (st\<lparr>db_log := db_log st @ [CommitTransaction, CommitFailed],
               m_nTileInsertionCount := n\<rparr>) = upserts st"
  "failed_commits (st\<lparr>db_log := db_log st @ [CommitTransaction, CommitFailed],
                      m_nTileInsertionCount := n\<rparr>) = Suc (failed_commits st)"
  by (simp_all add: commits_def upserts_def failed_commits_def)

text \<open>
  Claim C3. A call of \<^verbatim>\<open>WriteTile\<close> or of \<^verbatim>\<open>FlushTiles\<close> during which a commit fails,
  whatever the other commits of the call have answered, returns \<^verbatim>\<open>CE_Failure\<close> and
  leaves the insertion counter at -1. The commit of \<^verbatim>\<open>WriteTile\<close> at a counter of 1000
  and the final commit of \<^verbatim>\<open>FlushTiles\<close> at a positive counter, when they fail, are
  logged as failed, set the counter to -1 and make the call return \<^verbatim>\<open>CE_Failure\<close>.
  With a negative counter, \<^verbatim>\<open>WriteTile\<close> and \<^verbatim>\<open>FlushTiles\<close> return \<^verbatim>\<open>CE_Failure\<close> and
  leave the state, its log included, as it is: they send no statement, and the
  counter stays negative for every later call.
\<close>

theorem commit_failure_poisons:
  "(WriteTile env oc st = (e, st') \<and> failed_commits st < failed_commits st' \<longrightarrow>
      e = CE_Failure \<and> m_nTileInsertionCount st' = - 1) \<and>
   (WriteTile env oc st = (e, st') \<and> \<not> commit_ok oc \<and> commits st < commits st' \<longrightarrow>
      e = CE_Failure \<and> m_nTileInsertionCount st' = - 1 \<and>
      failed_commits st' = failed_commits st + 1) \<and>
   (FlushTiles env oc ocw ocs st = (e2, st2) \<and> failed_commits st < failed_commits st2 \<longrightarrow>
      e2 = CE_Failure \<and> m_nTileInsertionCount st2 = - 1) \<and>
   (0 \<le> m_nTileInsertionCount st \<and> \<not> commit_ok oc \<and>
    0 < m_nTileInsertionCount
          (snd (if IGetUpdate env
                then (if shifted env then FlushRemainingShiftedTiles env ocw ocs False st
                      else WriteTile env ocw st)
                else (CE_None, st))) \<longrightarrow>
      fst (FlushTiles env oc ocw ocs st) = CE_Failure \<and>
      m_nTileInsertionCount (snd (FlushTiles env oc ocw ocs st)) = - 1 \<and>
      failed_commits (snd (FlushTiles env oc ocw ocs st)) =
        failed_commits
          (snd (if IGetUpdate env
                then (if shifted env then FlushRemainingShiftedTiles env ocw ocs False st
                      else WriteTile env ocw st)
                else (CE_None, st))) + 1) \<and>
   (m_nTileInsertionCount st = 1000 \<and> \<not> commit_ok oc \<longrightarrow>
      BatchTransaction oc st =
        (False, st\<lparr>db_log := db_log st @ [CommitTransaction, CommitFailed],
                   m_nTileInsertionCount := - 1\<rparr>)) \<and>
   (m_nTileInsertionCount st < 0 \<longrightarrow>
      WriteTile env oc st = (CE_Failure, st) \<and> FlushTiles env oc ocw ocs st = (CE_Failure, st))"
proof (intro conjI impI)
  assume a: "WriteTile env oc st = (e, st') \<and> failed_commits st < failed_commits st'"
  then have "wstep oc st e st'" using WriteTile_wstep by blast
  then show "e = CE_Failure" "m_nTileInsertionCount st' = - 1"
    using a by (auto simp: wstep_def batch_step_def batch_eq_def bview_def split: if_splits)
next
  assume a: "WriteTile env oc st = (e, st') \<and> \<not> commit_ok oc \<and> commits st < commits st'"
  then have "wstep oc st e st'" using WriteTile_wstep by blast
  then show "e = CE_Failure" "m_nTileInsertionCount st' = - 1"
    "failed_commits st' = failed_commits st + 1"
    using a by (auto simp: wstep_def batch_step_def batch_eq_def bview_def split: if_splits)
next
  assume a: "FlushTiles env oc ocw ocs st = (e2, st2) \<and> failed_commits st < failed_commits st2"
  have p: "0 \<le> m_nTileInsertionCount st"
  proof (rule ccontr)
    assume "\<not> 0 \<le> m_nTileInsertionCount st"
    then have "st2 = st" using a FlushTiles_poisoned [of st env oc ocw ocs] by simp
    then show False using a by simp
  qed
  from a p obtain e1 st1 where
    i: "(if IGetUpdate env
         then (if shifted env then FlushRemainingShiftedTiles env ocw ocs False st
               else WriteTile env ocw st)
         else (CE_None, st)) = (e1, st1)"
    and r: "(e2, st2) = (if m_nTileInsertionCount st1 > 0
                 then (if commit_ok oc
                       then (e1, st1\<lparr>db_log := db_log st1 @ [CommitTransaction],
                                      m_nTileInsertionCount := 0\<rparr>)
                       else (CE_Failure,
                             st1\<lparr>db_log := db_log st1 @ [CommitTransaction, CommitFailed],
                                 m_nTileInsertionCount := - 1\<rparr>))
                 else (e1, st1))"
    using FlushTiles_inner by blast
  have n: "no_failure_or_poison st e1 st1"
    using FlushTiles_inner_fail [OF p i] .
  show "e2 = CE_Failure" "m_nTileInsertionCount st2 = - 1"
    using n r a by (auto simp: no_failure_or_poison_def split: if_splits)
next
  let ?inner = "if IGetUpdate env
                then (if shifted env then FlushRemainingShiftedTiles env ocw ocs False st
                      else WriteTile env ocw st)
                else (CE_None, st)"
  assume a: "0 \<le> m_nTileInsertionCount st \<and> \<not> commit_ok oc \<and>
             0 < m_nTileInsertionCount (snd ?inner)"
  have f: "FlushTiles env oc ocw ocs st =
             (CE_Failure, (snd ?inner)\<lparr>db_log := db_log (snd ?inner) @ [CommitTransaction, CommitFailed],
                                       m_nTileInsertionCount := - 1\<rparr>)"
    using FlushTiles_final [where oc = oc and ocw = ocw and ocs = ocs and st = st and env = env,
            OF _ surjective_pairing] a
    by simp
  show "fst (FlushTiles env oc ocw ocs st) = CE_Failure"
    "m_nTileInsertionCount (snd (FlushTiles env oc ocw ocs st)) = - 1"
    "failed_commits (snd (FlushTiles env oc ocw ocs st)) = failed_commits (snd ?inner) + 1"
    by (simp_all add: f)
next
  assume "m_nTileInsertionCount st = 1000 \<and> \<not> commit_ok oc"
  then show "BatchTransaction oc st =
        (False, st\<lparr>db_log := db_log st @ [CommitTransaction, CommitFailed],
                   m_nTileInsertionCount := - 1\<rparr>)"
    by (simp add: BatchTransaction_def Let_def sql_def)
next
  assume "m_nTileInsertionCount st < 0"
  then show "WriteTile env oc st = (CE_Failure, st)" "FlushTiles env oc ocw ocs st = (CE_Failure, st)"
    by (simp_all add: WriteTile_poisoned FlushTiles_poisoned)
qed

text \<open>
  The small dataset with a counter of 1000 and tile (0, 0) dirty: a \<^verbatim>\<open>WriteTile\<close> whose
  commit fails; a \<^verbatim>\<open>FlushTiles\<close> whose \<^verbatim>\<open>WriteTile\<close> commits and whose final commit
  fails; and calls on a poisoned batcher.
\<close>

theorem commit_failure_poisons_witness:
  "WriteTile ex_env (ex_oc\<lparr>commit_ok := False\<rparr>)
     (host_store ex_dirty_slots (replicate 32 (Fin 7)) (ex_state\<lparr>m_nTileInsertionCount := 1000\<rparr>)) =
     (CE_Failure,
      snd (WriteTile ex_env (ex_oc\<lparr>commit_ok := False\<rparr>)
         (host_store ex_dirty_slots (replicate 32 (Fin 7))
            (ex_state\<lparr>m_nTileInsertionCount := 1000\<rparr>)))) \<and>
   m_nTileInsertionCount
     (snd (WriteTile ex_env (ex_oc\<lparr>commit_ok := False\<rparr>)
         (host_store ex_dirty_slots (replicate 32 (Fin 7))
            (ex_state\<lparr>m_nTileInsertionCount := 1000\<rparr>)))) = - 1 \<and>
   failed_commits
     (snd (WriteTile ex_env (ex_oc\<lparr>commit_ok := False\<rparr>)
         (host_store ex_dirty_slots (replicate 32 (Fin 7))
            (ex_state\<lparr>m_nTileInsertionCount := 1000\<rparr>)))) = 1 \<and>
   commits
     (snd (FlushTiles ex_env (ex_oc\<lparr>commit_ok := False\<rparr>) ex_oc (\<lambda>k. ex_oc)
         (host_store ex_dirty_slots (replicate 32 (Fin 7))
            (ex_state\<lparr>m_nTileInsertionCount := 1000\<rparr>)))) = 2 \<and>
   fst (FlushTiles ex_env (ex_oc\<lparr>commit_ok := False\<rparr>) ex_oc (\<lambda>k. ex_oc)
         (host_store ex_dirty_slots (replicate 32 (Fin 7))
            (ex_state\<lparr>m_nTileInsertionCount := 1000\<rparr>))) = CE_Failure \<and>
   m_nTileInsertionCount
     (snd (FlushTiles ex_env (ex_oc\<lparr>commit_ok := False\<rparr>) ex_oc (\<lambda>k. ex_oc)
         (host_store ex_dirty_slots (replicate 32 (Fin 7))
            (ex_state\<lparr>m_nTileInsertionCount := 1000\<rparr>)))) = - 1 \<and>
   failed_commits
     (snd (FlushTiles ex_env (ex_oc\<lparr>commit_ok := False\<rparr>) ex_oc (\<lambda>k. ex_oc)
         (host_store ex_dirty_slots (replicate 32 (Fin 7))
            (ex_state\<lparr>m_nTileInsertionCount := 1000\<rparr>)))) = 1 \<and>
   BatchTransaction (ex_oc\<lparr>commit_ok := False\<rparr>) (ex_state\<lparr>m_nTileInsertionCount := 1000\<rparr>) =
     (False, ex_state\<lparr>db_log := [CommitTransaction, CommitFailed], m_nTileInsertionCount := - 1\<rparr>) \<and>
   WriteTile ex_env ex_oc (ex_state\<lparr>m_nTileInsertionCount := - 1\<rparr>) =
     (CE_Failure, ex_state\<lparr>m_nTileInsertionCount := - 1\<rparr>) \<and>
   FlushTiles ex_env ex_oc ex_oc (\<lambda>k. ex_oc) (ex_state\<lparr>m_nTileInsertionCount := - 1\<rparr>) =
     (CE_Failure, ex_state\<lparr>m_nTileInsertionCount := - 1\<rparr>)"
proof -
  let ?oc = "ex_oc\<lparr>commit_ok := False\<rparr>"
  let ?st = "host_store ex_dirty_slots (replicate 32 (Fin 7))
               (ex_state\<lparr>m_nTileInsertionCount := 1000\<rparr>)"
  let ?ba = "ex_state\<lparr>m_nTileInsertionCount := 1000\<rparr>"
  let ?po = "ex_state\<lparr>m_nTileInsertionCount := - 1\<rparr>"
  let ?W = "WriteTile ex_env ?oc ?st"
  let ?F = "FlushTiles ex_env ?oc ex_oc (\<lambda>k. ex_oc) ?st"
  let ?inner = "if IGetUpdate ex_env
                then (if shifted ex_env
                      then FlushRemainingShiftedTiles ex_env ex_oc (\<lambda>k. ex_oc) False ?st
                      else WriteTile ex_env ex_oc ?st)
                else (CE_None, ?st)"
  have a: "\<not> commit_ok ?oc" by simp
  have b: "failed_commits ?st < failed_commits (snd ?W)" by code_simp
  have b': "commits ?st < commits (snd ?W)" by code_simp
  have b0: "failed_commits ?st = 0" by code_simp
  have c: "failed_commits ?st < failed_commits (snd ?F)" by code_simp
  have c': "0 \<le> m_nTileInsertionCount ?st \<and> \<not> commit_ok ?oc \<and>
            0 < m_nTileInsertionCount (snd ?inner)"
    by code_simp
  have c0: "failed_commits (snd ?inner) = 0" "commits (snd ?F) = 2" by code_simp+
  have d: "m_nTileInsertionCount ?po < 0" by code_simp
  have g: "m_nTileInsertionCount ?ba = 1000 \<and> \<not> commit_ok ?oc" by code_simp
  have g0: "db_log ?ba = []" by code_simp
  have 1: "fst ?W = CE_Failure \<and> m_nTileInsertionCount (snd ?W) = - 1"
    by (rule commit_failure_poisons [of ex_env ?oc ?st, THEN conjunct1, rule_format])
       (intro conjI surjective_pairing b)
  have 2: "fst ?W = CE_Failure \<and> m_nTileInsertionCount (snd ?W) = - 1 \<and>
           failed_commits (snd ?W) = failed_commits ?st + 1"
    by (rule commit_failure_poisons [of ex_env ?oc ?st, THEN conjunct2, THEN conjunct1,
               rule_format])
       (intro conjI surjective_pairing a b')
  have 3: "fst ?F = CE_Failure \<and> m_nTileInsertionCount (snd ?F) = - 1"
    by (rule commit_failure_poisons [of ex_env ?oc ?st _ _ ex_oc "\<lambda>k. ex_oc", THEN conjunct2,
               THEN conjunct2, THEN conjunct1, rule_format])
       (intro conjI surjective_pairing c)
  have 4: "fst ?F = CE_Failure \<and> m_nTileInsertionCount (snd ?F) = - 1 \<and>
           failed_commits (snd ?F) = failed_commits (snd ?inner) + 1"
    by (rule commit_failure_poisons [of ex_env ?oc ?st _ _ ex_oc "\<lambda>k. ex_oc", THEN conjunct2,
               THEN conjunct2, THEN conjunct2, THEN conjunct1, rule_format])
       (rule c')
  have 5: "BatchTransaction ?oc ?ba =
             (False, ?ba\<lparr>db_log := db_log ?ba @ [CommitTransaction, CommitFailed],
                         m_nTileInsertionCount := - 1\<rparr>)"
    by (rule commit_failure_poisons [THEN conjunct2, THEN conjunct2, THEN conjunct2,
               THEN conjunct2, THEN conjunct1, rule_format])
       (rule g)
  have 6: "WriteTile ex_env ex_oc ?po = (CE_Failure, ?po) \<and>
           FlushTiles ex_env ex_oc ex_oc (\<lambda>k. ex_oc) ?po = (CE_Failure, ?po)"
    by (rule commit_failure_poisons [THEN conjunct2, THEN conjunct2, THEN conjunct2,
               THEN conjunct2, THEN conjunct2, rule_format])
       (rule d)
  have w: "?W = (CE_Failure, snd ?W)" using 1 by (simp add: prod_eq_iff)
  have 7: "failed_commits (snd ?W) = 1" using 2 b0 by simp
  have 8: "failed_commits (snd ?F) = 1" using 4 c0 by simp
  have 9: "BatchTransaction ?oc ?ba =
             (False, ex_state\<lparr>db_log := [CommitTransaction, CommitFailed],
                               m_nTileInsertionCount := - 1\<rparr>)"
    using 5 g0 by simp
  show ?thesis
    by (intro conjI w 1 [THEN conjunct2] 7 c0(2) 3 [THEN conjunct1] 3 [THEN conjunct2] 8 9
          6 [THEN conjunct1] 6 [THEN conjunct2])
qed


text \<open>
  Claim C2. From a state with counter 0, after any session of the host followed by
  \<^verbatim>\<open>FlushTiles\<close> that leaves the batcher not poisoned, the number of commits is the
  number of upserts divided by 1000 and rounded up, and no batch is open; so 3000
  upserts make exactly 3 commits. A write that finds the counter at 1000 commits,
  starts a transaction and counts 1; a write that finds it at 0 starts a
  transaction; any other write only counts. \<^verbatim>\<open>FlushTiles\<close>, when the counter is
  positive after its write, calls \<^verbatim>\<open>ICommitTransaction\<close> once more, whatever the
  counter, and sets the counter to 0 when the commit succeeds; it never leaves a
  positive counter.
\<close>

theorem transaction_batching:
  "(m_nTileInsertionCount st0 = 0 \<and> FlushTiles env oc ocw ocs (run env ops st0) = (e, st') \<and>
    upserts st' = upserts st0 + 3000 \<and> 0 \<le> m_nTileInsertionCount st' \<longrightarrow>
      commits st' = commits st0 + 3 \<and> m_nTileInsertionCount st' = 0) \<and>
   (m_nTileInsertionCount st0 = 0 \<and> FlushTiles env oc ocw ocs (run env ops st0) = (e, st') \<and>
    0 \<le> m_nTileInsertionCount st' \<longrightarrow>
      commits st' = commits st0 + (upserts st' - upserts st0 + 999) div 1000 \<and>
      upserts st0 \<le> upserts st' \<and> m_nTileInsertionCount st' = 0) \<and>
   (m_nTileInsertionCount st = 1000 \<and> commit_ok oc \<longrightarrow>
      BatchTransaction oc st =
        (True, st\<lparr>db_log := db_log st @ [CommitTransaction, StartTransaction],
                  m_nTileInsertionCount := 1\<rparr>)) \<and>
   (m_nTileInsertionCount st = 0 \<longrightarrow>
      BatchTransaction oc st =
        (True, st\<lparr>db_log := db_log st @ [StartTransaction], m_nTileInsertionCount := 1\<rparr>)) \<and>
   (m_nTileInsertionCount st \<noteq> 0 \<and> m_nTileInsertionCount st \<noteq> 1000 \<longrightarrow>
      BatchTransaction oc st = (True, st\<lparr>m_nTileInsertionCount := m_nTileInsertionCount st + 1\<rparr>)) \<and>
   (FlushTiles env oc ocw ocs st = (e2, st2) \<longrightarrow> m_nTileInsertionCount st2 \<le> 0) \<and>
   (0 \<le> m_nTileInsertionCount st \<and> commit_ok oc \<and>
    0 < m_nTileInsertionCount
          (snd (if IGetUpdate env
                then (if shifted env then FlushRemainingShiftedTiles env ocw ocs False st
                      else WriteTile env ocw st)
                else (CE_None, st))) \<longrightarrow>
      snd (FlushTiles env oc ocw ocs st) =
        (snd (if IGetUpdate env
              then (if shifted env then FlushRemainingShiftedTiles env ocw ocs False st
                    else WriteTile env ocw st)
              else (CE_None, st)))
          \<lparr>db_log :=
             db_log (snd (if IGetUpdate env
                          then (if shifted env
                                then FlushRemainingShiftedTiles env ocw ocs False st
                                else WriteTile env ocw st)
                          else (CE_None, st))) @ [CommitTransaction],
           m_nTileInsertionCount := 0\<rparr>)"
proof (intro conjI impI)
  assume a: "m_nTileInsertionCount st0 = 0 \<and> FlushTiles env oc ocw ocs (run env ops st0) = (e, st') \<and>
             0 \<le> m_nTileInsertionCount st'"
  let ?st = "run env ops st0"
  have inv: "batch_inv st0 ?st" using a run_inv [OF batch_inv_init] by simp
  have p: "0 \<le> m_nTileInsertionCount ?st"
  proof (rule ccontr)
    assume "\<not> 0 \<le> m_nTileInsertionCount ?st"
    then have "st' = ?st" using a FlushTiles_poisoned [of ?st env oc ocw ocs] by simp
    then show False using a \<open>\<not> 0 \<le> m_nTileInsertionCount ?st\<close> by simp
  qed
  from a p obtain e1 st1 where
    i: "(if IGetUpdate env
         then (if shifted env then FlushRemainingShiftedTiles env ocw ocs False ?st
               else WriteTile env ocw ?st)
         else (CE_None, ?st)) = (e1, st1)"
    and r: "(e, st') = (if m_nTileInsertionCount st1 > 0
                 then (if commit_ok oc
                       then (e1, st1\<lparr>db_log := db_log st1 @ [CommitTransaction],
                                      m_nTileInsertionCount := 0\<rparr>)
                       else (CE_Failure,
                             st1\<lparr>db_log := db_log st1 @ [CommitTransaction, CommitFailed],
                                 m_nTileInsertionCount := - 1\<rparr>))
                 else (e1, st1))"
    using FlushTiles_inner by blast
  have inv1: "batch_inv st0 st1" using FlushTiles_inner_inv [OF inv i] .
  show "commits st' = commits st0 + (upserts st' - upserts st0 + 999) div 1000"
    "upserts st0 \<le> upserts st'" "m_nTileInsertionCount st' = 0"
    using inv1 r a
    by (auto simp: batch_inv_def binv_def bview_def split: if_splits)
next
  assume a: "m_nTileInsertionCount st0 = 0 \<and> FlushTiles env oc ocw ocs (run env ops st0) = (e, st') \<and>
             upserts st' = upserts st0 + 3000 \<and> 0 \<le> m_nTileInsertionCount st'"
  let ?st = "run env ops st0"
  have inv: "batch_inv st0 ?st" using a run_inv [OF batch_inv_init] by simp
  have p: "0 \<le> m_nTileInsertionCount ?st"
  proof (rule ccontr)
    assume "\<not> 0 \<le> m_nTileInsertionCount ?st"
    then have "st' = ?st" using a FlushTiles_poisoned [of ?st env oc ocw ocs] by simp
    then show False using a \<open>\<not> 0 \<le> m_nTileInsertionCount ?st\<close> by simp
  qed
  from a p obtain e1 st1 where
    i: "(if IGetUpdate env
         then (if shifted env then FlushRemainingShiftedTiles env ocw ocs False ?st
               else WriteTile env ocw ?st)
         else (CE_None, ?st)) = (e1, st1)"
    and r: "(e, st') = (if m_nTileInsertionCount st1 > 0
                 then (if commit_ok oc
                       then (e1, st1\<lparr>db_log := db_log st1 @ [CommitTransaction],
                                      m_nTileInsertionCount := 0\<rparr>)
                       else (CE_Failure,
                             st1\<lparr>db_log := db_log st1 @ [CommitTransaction, CommitFailed],
                                 m_nTileInsertionCount := - 1\<rparr>))
                 else (e1, st1))"
    using FlushTiles_inner by blast
  have inv1: "batch_inv st0 st1" using FlushTiles_inner_inv [OF inv i] .
  show "commits st' = commits st0 + 3" "m_nTileInsertionCount st' = 0"
    using inv1 r a
    by (auto simp: batch_inv_def binv_def bview_def split: if_splits)
next
  assume "m_nTileInsertionCount st = 1000 \<and> commit_ok oc"
  then show "BatchTransaction oc st =
        (True, st\<lparr>db_log := db_log st @ [CommitTransaction, StartTransaction],
                  m_nTileInsertionCount := 1\<rparr>)"
    by (simp add: BatchTransaction_def Let_def sql_def)
next
  assume "m_nTileInsertionCount st = 0"
  then show "BatchTransaction oc st =
        (True, st\<lparr>db_log := db_log st @ [StartTransaction], m_nTileInsertionCount := 1\<rparr>)"
    by (simp add: BatchTransaction_def Let_def sql_def)
next
  assume "m_nTileInsertionCount st \<noteq> 0 \<and> m_nTileInsertionCount st \<noteq> 1000"
  then show "BatchTransaction oc st = (True, st\<lparr>m_nTileInsertionCount := m_nTileInsertionCount st + 1\<rparr>)"
    by (simp add: BatchTransaction_def)
next
  assume a: "FlushTiles env oc ocw ocs st = (e2, st2)"
  show "m_nTileInsertionCount st2 \<le> 0"
  proof (cases "0 \<le> m_nTileInsertionCount st")
    case False
    then show ?thesis using a FlushTiles_poisoned [of st env oc ocw ocs] by simp
  next
    case True
    from FlushTiles_inner [OF a True] obtain e1 st1 where
      "(e2, st2) = (if m_nTileInsertionCount st1 > 0
                 then (if commit_ok oc
                       then (e1, st1\<lparr>db_log := db_log st1 @ [CommitTransaction],
                                      m_nTileInsertionCount := 0\<rparr>)
                       else (CE_Failure,
                             st1\<lparr>db_log := db_log st1 @ [CommitTransaction, CommitFailed],
                                 m_nTileInsertionCount := - 1\<rparr>))
                 else (e1, st1))"
      by blast
    then show ?thesis by (auto split: if_splits)
  qed
next
  let ?inner = "if IGetUpdate env
                then (if shifted env then FlushRemainingShiftedTiles env ocw ocs False st
                      else WriteTile env ocw st)
                else (CE_None, st)"
  assume a: "0 \<le> m_nTileInsertionCount st \<and> commit_ok oc \<and>
             0 < m_nTileInsertionCount (snd ?inner)"
  show "snd (FlushTiles env oc ocw ocs st) =
          (snd ?inner)\<lparr>db_log := db_log (snd ?inner) @ [CommitTransaction],
                        m_nTileInsertionCount := 0\<rparr>"
    using FlushTiles_final [where oc = oc and ocw = ocw and ocs = ocs and st = st and env = env,
            OF _ surjective_pairing] a
    by simp
qed


text \<open>The sessions of 3000 writes and of 3 writes of the small dataset.\<close>

lemma ex_not_empty: "\<not> IsEmptyTile ex_env ct True (replicate 32 (Fin 7))"
proof (cases ct)
  case True
  have "\<not> IsEmptyTile ex_env True True (replicate 32 (Fin 7))" by code_simp
  then show ?thesis using True by simp
next
  case False
  have "\<not> IsEmptyTile ex_env False True (replicate 32 (Fin 7))" by code_simp
  then show ?thesis using False by simp
qed

lemma ex_all_dirty:
  "m_asCachedTilesDesc st = ex_dirty_slots \<Longrightarrow> bAllDirty ex_env st"
  "m_asCachedTilesDesc st = ex_dirty_slots \<Longrightarrow> \<not> bAllNonDirty ex_env st"
  by (simp_all add: bAllDirty_def bAllNonDirty_def ex_env_def ex_dirty_slots_def dirty_desc_def)

lemma ex_internal:
  assumes "m_asCachedTilesDesc st = ex_dirty_slots" "m_pabyCachedTiles st = replicate 32 (Fin 7)"
  shows "WriteTileInternal ex_env ex_oc st =
           EncodeAndStore ex_env ex_oc 0 0 True
             (st\<lparr>m_asCachedTilesDesc := ex_dirty_slots[0 := clear_desc (ex_dirty_slots ! 0)]\<rparr>)"
  using assms ex_not_empty
  by (simp add: WriteTileInternal_def ex_all_dirty Let_def)
     (simp add: ex_env_def ex_dirty_slots_def dirty_desc_def int32_def)

lemma ex_GetColorTable:
  "upserts (GetColorTable ex_env ex_oc st) = upserts st \<and>
   m_nTileInsertionCount (GetColorTable ex_env ex_oc st) = m_nTileInsertionCount st \<and>
   m_bInWriteTile (GetColorTable ex_env ex_oc st) = m_bInWriteTile st \<and>
   nDisableDirtyBlockFlushCounter (GetColorTable ex_env ex_oc st) =
     nDisableDirtyBlockFlushCounter st \<and>
   m_asCachedTilesDesc (GetColorTable ex_env ex_oc st) = m_asCachedTilesDesc st \<and>
   m_pabyCachedTiles (GetColorTable ex_env ex_oc st) = m_pabyCachedTiles st"
  by (simp add: GetColorTable_def ProbeColorTable_def ex_oc_def Let_def sql_def upserts_def)

lemma ex_encode_tile:
  assumes "0 \<le> m_nTileInsertionCount st"
  shows "upserts (snd (EncodeTile ex_env ex_oc 0 0 True st)) = upserts st + 1 \<and>
         0 \<le> m_nTileInsertionCount (snd (EncodeTile ex_env ex_oc 0 0 True st)) \<and>
         m_bInWriteTile (snd (EncodeTile ex_env ex_oc 0 0 True st)) = m_bInWriteTile st \<and>
         nDisableDirtyBlockFlushCounter (snd (EncodeTile ex_env ex_oc 0 0 True st)) =
           nDisableDirtyBlockFlushCounter st \<and>
         m_asCachedTilesDesc (snd (EncodeTile ex_env ex_oc 0 0 True st)) = m_asCachedTilesDesc st"
  using assms
  by (simp add: EncodeTile_def ex_env_def ex_oc_def BatchTransaction_def
        InsertOrReplaceTile_def InsertGriddedTileAncillary_def Let_def sql_def upserts_def
        split_beta)

lemma ex_encode:
  assumes "0 \<le> m_nTileInsertionCount st"
  shows "upserts (snd (EncodeAndStore ex_env ex_oc 0 0 True st)) = upserts st + 1 \<and>
         0 \<le> m_nTileInsertionCount (snd (EncodeAndStore ex_env ex_oc 0 0 True st)) \<and>
         m_bInWriteTile (snd (EncodeAndStore ex_env ex_oc 0 0 True st)) = m_bInWriteTile st \<and>
         nDisableDirtyBlockFlushCounter (snd (EncodeAndStore ex_env ex_oc 0 0 True st)) =
           nDisableDirtyBlockFlushCounter st \<and>
         m_asCachedTilesDesc (snd (EncodeAndStore ex_env ex_oc 0 0 True st)) = m_asCachedTilesDesc st"
proof -
  let ?st0 = "GetColorTable ex_env ex_oc st"
  have e: "EncodeAndStore ex_env ex_oc 0 0 True st = EncodeTile ex_env ex_oc 0 0 True ?st0"
    by (simp add: EncodeAndStore_def) (simp add: ex_env_def)
  have "0 \<le> m_nTileInsertionCount ?st0" using assms ex_GetColorTable [of st] by simp
  from ex_encode_tile [OF this] show ?thesis
    unfolding e using ex_GetColorTable [of st] by simp
qed

lemma ex_write:
  assumes "0 \<le> m_nTileInsertionCount st" "\<not> m_bInWriteTile st"
  shows "upserts (apply_op ex_env ex_op st) = upserts st + 1 \<and>
         0 \<le> m_nTileInsertionCount (apply_op ex_env ex_op st) \<and>
         \<not> m_bInWriteTile (apply_op ex_env ex_op st) \<and>
         nRow (m_asCachedTilesDesc (apply_op ex_env ex_op st) ! 0) = - 1"
proof -
  let ?st1 = "(host_store ex_dirty_slots (replicate 32 (Fin 7)) st)
                \<lparr>nDisableDirtyBlockFlushCounter := nDisableDirtyBlockFlushCounter st + 1,
                  m_bInWriteTile := True\<rparr>"
  let ?st2 = "?st1\<lparr>m_asCachedTilesDesc := ex_dirty_slots[0 := clear_desc (ex_dirty_slots ! 0)]\<rparr>"
  have i: "WriteTileInternal ex_env ex_oc ?st1 = EncodeAndStore ex_env ex_oc 0 0 True ?st2"
    by (rule ex_internal) (simp_all add: host_store_def)
  have c: "0 \<le> m_nTileInsertionCount ?st2" using assms by (simp add: host_store_def)
  have u: "upserts ?st2 = upserts st" by (simp add: host_store_def upserts_def)
  have a: "apply_op ex_env ex_op st =
             (snd (EncodeAndStore ex_env ex_oc 0 0 True ?st2))
               \<lparr>m_bInWriteTile := False,
                 nDisableDirtyBlockFlushCounter :=
                   nDisableDirtyBlockFlushCounter (snd (EncodeAndStore ex_env ex_oc 0 0 True ?st2)) - 1\<rparr>"
    using assms i by (simp add: ex_op_def WriteTile_eq host_store_def Let_def split_beta)
  show ?thesis
    using ex_encode [OF c] u
    by (simp add: a upserts_def ex_dirty_slots_def clear_desc_def reset_desc_def)
qed

lemma ex_run:
  "0 \<le> m_nTileInsertionCount st \<Longrightarrow> \<not> m_bInWriteTile st \<Longrightarrow>
   nRow (m_asCachedTilesDesc st ! 0) = - 1 \<Longrightarrow>
     upserts (run ex_env (replicate n ex_op) st) = upserts st + n \<and>
     0 \<le> m_nTileInsertionCount (run ex_env (replicate n ex_op) st) \<and>
     \<not> m_bInWriteTile (run ex_env (replicate n ex_op) st) \<and>
     nRow (m_asCachedTilesDesc (run ex_env (replicate n ex_op) st) ! 0) = - 1"
proof (induction n arbitrary: st)
  case 0
  then show ?case by (simp add: run_def)
next
  case (Suc n)
  from ex_write [OF Suc.prems(1,2)] Suc.IH [of "apply_op ex_env ex_op st"]
  show ?case by (simp add: run_def)
qed

lemma ex_flush:
  "0 \<le> m_nTileInsertionCount st \<Longrightarrow> \<not> m_bInWriteTile st \<Longrightarrow>
   nRow (m_asCachedTilesDesc st ! 0) = - 1 \<Longrightarrow>
     upserts (snd (FlushTiles ex_env ex_oc ex_oc ocs st)) = upserts st \<and>
     0 \<le> m_nTileInsertionCount (snd (FlushTiles ex_env ex_oc ex_oc ocs st))"
  by (simp add: FlushTiles_def WriteTile_eq WriteTileInternal_def shifted_def ex_env_def
        ex_oc_def Let_def sql_def upserts_def)

theorem transaction_batching_witness:
  "commits (snd (FlushTiles ex_env ex_oc ex_oc (\<lambda>k. ex_oc)
                   (run ex_env (replicate 3000 ex_op) ex_state))) = 3 \<and>
   m_nTileInsertionCount
     (snd (FlushTiles ex_env ex_oc ex_oc (\<lambda>k. ex_oc)
             (run ex_env (replicate 3000 ex_op) ex_state))) = 0 \<and>
   upserts (snd (FlushTiles ex_env ex_oc ex_oc (\<lambda>k. ex_oc)
                   (run ex_env (replicate 3 ex_op) ex_state))) = 3 \<and>
   commits (snd (FlushTiles ex_env ex_oc ex_oc (\<lambda>k. ex_oc)
                   (run ex_env (replicate 3 ex_op) ex_state))) = 1 \<and>
   db_log (snd (FlushTiles ex_env ex_oc ex_oc (\<lambda>k. ex_oc)
                  (run ex_env (replicate 3 ex_op) ex_state))) =
     db_log (run ex_env (replicate 3 ex_op) ex_state) @ [CommitTransaction] \<and>
   BatchTransaction ex_oc (ex_state\<lparr>m_nTileInsertionCount := 1000\<rparr>) =
     (True, ex_state\<lparr>db_log := [CommitTransaction, StartTransaction],
                     m_nTileInsertionCount := 1\<rparr>) \<and>
   BatchTransaction ex_oc ex_state =
     (True, ex_state\<lparr>db_log := [StartTransaction], m_nTileInsertionCount := 1\<rparr>) \<and>
   BatchTransaction ex_oc (ex_state\<lparr>m_nTileInsertionCount := 7\<rparr>) =
     (True, ex_state\<lparr>m_nTileInsertionCount := 8\<rparr>)"
proof -
  let ?st = "run ex_env (replicate 3000 ex_op) ex_state"
  let ?F = "FlushTiles ex_env ex_oc ex_oc (\<lambda>k. ex_oc) ?st"
  let ?s3 = "run ex_env (replicate 3 ex_op) ex_state"
  let ?F3 = "FlushTiles ex_env ex_oc ex_oc (\<lambda>k. ex_oc) ?s3"
  let ?inner3 = "if IGetUpdate ex_env
                 then (if shifted ex_env
                       then FlushRemainingShiftedTiles ex_env ex_oc (\<lambda>k. ex_oc) False ?s3
                       else WriteTile ex_env ex_oc ?s3)
                 else (CE_None, ?s3)"
  have z: "m_nTileInsertionCount ex_state = 0" "\<not> m_bInWriteTile ex_state"
    "nRow (m_asCachedTilesDesc ex_state ! 0) = - 1" "upserts ex_state = 0" "commits ex_state = 0"
    "db_log ex_state = []"
    by code_simp+
  have r: "upserts ?st = 3000 \<and> 0 \<le> m_nTileInsertionCount ?st \<and> \<not> m_bInWriteTile ?st \<and>
           nRow (m_asCachedTilesDesc ?st ! 0) = - 1"
    using ex_run [of ex_state 3000] z by simp
  have f: "upserts (snd ?F) = upserts ex_state + 3000 \<and> 0 \<le> m_nTileInsertionCount (snd ?F)"
    using ex_flush [of ?st "\<lambda>k. ex_oc"] r z by simp
  have 1: "commits (snd ?F) = commits ex_state + 3 \<and> m_nTileInsertionCount (snd ?F) = 0"
    by (rule transaction_batching [of ex_state ex_env ex_oc ex_oc "\<lambda>k. ex_oc"
              "replicate 3000 ex_op" "fst ?F" "snd ?F", THEN conjunct1, rule_format])
       (intro conjI z(1) surjective_pairing f [THEN conjunct1] f [THEN conjunct2])
  have r3: "upserts ?s3 = 3 \<and> 0 \<le> m_nTileInsertionCount ?s3 \<and> \<not> m_bInWriteTile ?s3 \<and>
           nRow (m_asCachedTilesDesc ?s3 ! 0) = - 1"
    using ex_run [of ex_state 3] z by simp
  have f3: "upserts (snd ?F3) = 3 \<and> 0 \<le> m_nTileInsertionCount (snd ?F3)"
    using ex_flush [of ?s3 "\<lambda>k. ex_oc"] r3 z by simp
  have 2: "commits (snd ?F3) = commits ex_state + (upserts (snd ?F3) - upserts ex_state + 999) div 1000 \<and>
           upserts ex_state \<le> upserts (snd ?F3) \<and> m_nTileInsertionCount (snd ?F3) = 0"
    by (rule transaction_batching [of ex_state ex_env ex_oc ex_oc "\<lambda>k. ex_oc"
              "replicate 3 ex_op" "fst ?F3" "snd ?F3", THEN conjunct2, THEN conjunct1, rule_format])
       (intro conjI z(1) surjective_pairing f3 [THEN conjunct2])
  have c3: "commits (snd ?F3) = 1" using 2 f3 z by simp
  have h: "0 \<le> m_nTileInsertionCount ?s3 \<and> commit_ok ex_oc \<and>
           0 < m_nTileInsertionCount (snd ?inner3)"
    by code_simp
  have i3: "db_log (snd ?inner3) = db_log ?s3" by code_simp
  have 3: "snd ?F3 = (snd ?inner3)\<lparr>db_log := db_log (snd ?inner3) @ [CommitTransaction],
                                    m_nTileInsertionCount := 0\<rparr>"
    by (rule transaction_batching [THEN conjunct2, THEN conjunct2, THEN conjunct2,
               THEN conjunct2, THEN conjunct2, THEN conjunct2, rule_format])
       (rule h)
  have l3: "db_log (snd ?F3) = db_log ?s3 @ [CommitTransaction]"
    unfolding 3 by (simp add: i3)
  have g1: "m_nTileInsertionCount (ex_state\<lparr>m_nTileInsertionCount := 1000\<rparr>) = 1000 \<and>
            commit_ok ex_oc"
    by code_simp
  have 4: "BatchTransaction ex_oc (ex_state\<lparr>m_nTileInsertionCount := 1000\<rparr>) =
             (True, (ex_state\<lparr>m_nTileInsertionCount := 1000\<rparr>)
                \<lparr>db_log := db_log (ex_state\<lparr>m_nTileInsertionCount := 1000\<rparr>) @
                             [CommitTransaction, StartTransaction],
                  m_nTileInsertionCount := 1\<rparr>)"
    by (rule transaction_batching [THEN conjunct2, THEN conjunct2, THEN conjunct1, rule_format])
       (rule g1)
  have 5: "BatchTransaction ex_oc ex_state =
             (True, ex_state\<lparr>db_log := db_log ex_state @ [StartTransaction],
                             m_nTileInsertionCount := 1\<rparr>)"
    by (rule transaction_batching [THEN conjunct2, THEN conjunct2, THEN conjunct2,
               THEN conjunct1, rule_format])
       (rule z(1))
  have g2: "m_nTileInsertionCount (ex_state\<lparr>m_nTileInsertionCount := 7\<rparr>) \<noteq> 0 \<and>
            m_nTileInsertionCount (ex_state\<lparr>m_nTileInsertionCount := 7\<rparr>) \<noteq> 1000"
    by code_simp
  have 6: "BatchTransaction ex_oc (ex_state\<lparr>m_nTileInsertionCount := 7\<rparr>) =
             (True, (ex_state\<lparr>m_nTileInsertionCount := 7\<rparr>)
                \<lparr>m_nTileInsertionCount := m_nTileInsertionCount (ex_state\<lparr>m_nTileInsertionCount := 7\<rparr>) + 1\<rparr>)"
    by (rule transaction_batching [THEN conjunct2, THEN conjunct2, THEN conjunct2,
               THEN conjunct2, THEN conjunct1, rule_format])
       (rule g2)
  have 7: "m_nTileInsertionCount (snd ?F3) \<le> 0"
    by (rule transaction_batching [THEN conjunct2, THEN conjunct2, THEN conjunct2,
               THEN conjunct2, THEN conjunct2, THEN conjunct1, rule_format])
       (rule surjective_pairing)
  show ?thesis
    using 1 f3 c3 l3 4 5 6 z by simp
qed


section \<open>The write guard\<close>

text \<open>
  Claim C9. A call of \<^verbatim>\<open>WriteTile\<close> made while \<^verbatim>\<open>m_bInWriteTile\<close> is set returns
  \<^verbatim>\<open>CE_Failure\<close> and leaves the state as it is: store, log and slot descriptors are
  not touched, and the host is not called back. A call made with the guard clear
  and a batcher that is not poisoned sets the guard and opens the region in which
  the flushing of dirty blocks is disabled: every call of \<^verbatim>\<open>WriteTile\<close> that the host
  makes during the write returns \<^verbatim>\<open>CE_Failure\<close>, and no attempt of the host to flush a
  dirty block gets through, so the trace of the write holds one \<^verbatim>\<open>CE_Failure\<close> for
  each direct call and nothing else; \<^verbatim>\<open>WriteTileInternal\<close> runs on the state as
  \<^verbatim>\<open>WriteTile\<close> has entered it, which the host has not changed; the counter of the
  region is one more than before when the write starts and when it ends, and it is
  back to its value, with the guard cleared, when \<^verbatim>\<open>WriteTile\<close> returns.
\<close>

theorem WriteTile_reentrancy_guard:
  "(m_bInWriteTile st \<longrightarrow>
      WriteTile_traced env oc st = ([], CE_Failure, st) \<and> WriteTile env oc st = (CE_Failure, st)) \<and>
   (\<not> m_bInWriteTile st \<and> 0 \<le> m_nTileInsertionCount st \<longrightarrow>
      fst (WriteTile_traced env oc st) =
        replicate (length (filter is_CallWriteTile (host_calls oc))) CE_Failure \<and>
      (\<exists>st2. WriteTileInternal env oc
                (st\<lparr>nDisableDirtyBlockFlushCounter := nDisableDirtyBlockFlushCounter st + 1,
                    m_bInWriteTile := True\<rparr>) = (fst (WriteTile env oc st), st2) \<and>
             m_bInWriteTile st2 \<and>
             nDisableDirtyBlockFlushCounter st2 = nDisableDirtyBlockFlushCounter st + 1 \<and>
             snd (WriteTile env oc st) =
               st2\<lparr>m_bInWriteTile := False,
                    nDisableDirtyBlockFlushCounter := nDisableDirtyBlockFlushCounter st\<rparr>))"
proof (intro conjI impI)
  assume "m_bInWriteTile st"
  then show "WriteTile_traced env oc st = ([], CE_Failure, st)"
    "WriteTile env oc st = (CE_Failure, st)"
    by (simp_all add: WriteTile_traced_eq WriteTile_eq)
next
  assume a: "\<not> m_bInWriteTile st \<and> 0 \<le> m_nTileInsertionCount st"
  then show "fst (WriteTile_traced env oc st) =
        replicate (length (filter is_CallWriteTile (host_calls oc))) CE_Failure"
    by (simp add: WriteTile_traced_eq Let_def split_beta)
next
  assume a: "\<not> m_bInWriteTile st \<and> 0 \<le> m_nTileInsertionCount st"
  let ?st1 = "st\<lparr>nDisableDirtyBlockFlushCounter := nDisableDirtyBlockFlushCounter st + 1,
                   m_bInWriteTile := True\<rparr>"
  obtain e st2 where i: "WriteTileInternal env oc ?st1 = (e, st2)" by force
  have f: "frame_eq ?st1 st2" using WriteTileInternal_step [OF i] by blast
  have w: "WriteTile env oc st =
             (e, st2\<lparr>m_bInWriteTile := False,
                     nDisableDirtyBlockFlushCounter := nDisableDirtyBlockFlushCounter st2 - 1\<rparr>)"
    using a i by (simp add: WriteTile_eq Let_def)
  show "\<exists>st2. WriteTileInternal env oc ?st1 = (fst (WriteTile env oc st), st2) \<and>
             m_bInWriteTile st2 \<and>
             nDisableDirtyBlockFlushCounter st2 = nDisableDirtyBlockFlushCounter st + 1 \<and>
             snd (WriteTile env oc st) =
               st2\<lparr>m_bInWriteTile := False,
                    nDisableDirtyBlockFlushCounter := nDisableDirtyBlockFlushCounter st\<rparr>"
    using i f by (intro exI [of _ st2]) (simp add: w frame_eq_def)
qed

text \<open>
  The small dataset with tile (0, 0) dirty. First a call inside a write. Then a
  write during which the host tries to flush a block of zeros into the cache,
  calls \<^verbatim>\<open>WriteTile\<close>, and calls it again with a further call inside: the two direct
  calls have returned \<^verbatim>\<open>CE_Failure\<close>, one tile has been stored, and it is the tile of
  the cache as it was, not the block of the host.
\<close>

theorem WriteTile_reentrancy_guard_witness:
  "WriteTile ex_env ex_oc
     (host_store ex_dirty_slots (replicate 32 (Fin 7)) (ex_state\<lparr>m_bInWriteTile := True\<rparr>)) =
     (CE_Failure,
      host_store ex_dirty_slots (replicate 32 (Fin 7)) (ex_state\<lparr>m_bInWriteTile := True\<rparr>)) \<and>
   fst (WriteTile_traced ex_env ex_host_oc
          (host_store ex_dirty_slots (replicate 32 (Fin 7)) ex_state)) =
     [CE_Failure, CE_Failure] \<and>
   fst (WriteTile ex_env ex_host_oc (host_store ex_dirty_slots (replicate 32 (Fin 7)) ex_state)) =
     CE_None \<and>
   upserts (snd (WriteTile ex_env ex_host_oc
                   (host_store ex_dirty_slots (replicate 32 (Fin 7)) ex_state))) = 1 \<and>
   m_pabyCachedTiles (snd (WriteTile ex_env ex_host_oc
                   (host_store ex_dirty_slots (replicate 32 (Fin 7)) ex_state))) =
     replicate 32 (Fin 7) \<and>
   nDisableDirtyBlockFlushCounter
     (snd (WriteTileInternal ex_env ex_host_oc
        ((host_store ex_dirty_slots (replicate 32 (Fin 7)) ex_state)
           \<lparr>nDisableDirtyBlockFlushCounter := 1, m_bInWriteTile := True\<rparr>))) = 1 \<and>
   nDisableDirtyBlockFlushCounter
     (snd (WriteTile ex_env ex_host_oc
             (host_store ex_dirty_slots (replicate 32 (Fin 7)) ex_state))) = 0"
proof -
  let ?re = "host_store ex_dirty_slots (replicate 32 (Fin 7)) (ex_state\<lparr>m_bInWriteTile := True\<rparr>)"
  let ?st = "host_store ex_dirty_slots (replicate 32 (Fin 7)) ex_state"
  have a: "m_bInWriteTile ?re" by code_simp
  have b: "\<not> m_bInWriteTile ?st \<and> 0 \<le> m_nTileInsertionCount ?st" by code_simp
  have n: "nDisableDirtyBlockFlushCounter ?st = 0" by code_simp
  have h: "length (filter is_CallWriteTile (host_calls ex_host_oc)) = 2" by code_simp
  have 1: "WriteTile ex_env ex_oc ?re = (CE_Failure, ?re)"
    using WriteTile_reentrancy_guard [of ?re ex_env ex_oc, THEN conjunct1, rule_format, OF a]
    by (rule conjunct2)
  note g = WriteTile_reentrancy_guard [of ?st ex_env ex_host_oc, THEN conjunct2, rule_format, OF b]
  have 2: "fst (WriteTile_traced ex_env ex_host_oc ?st) = [CE_Failure, CE_Failure]"
    using g [THEN conjunct1] by (simp add: h numeral_2_eq_2)
  from g [THEN conjunct2] obtain st2 where
    i: "WriteTileInternal ex_env ex_host_oc
          (?st\<lparr>nDisableDirtyBlockFlushCounter := nDisableDirtyBlockFlushCounter ?st + 1,
               m_bInWriteTile := True\<rparr>) = (fst (WriteTile ex_env ex_host_oc ?st), st2)"
    and c: "nDisableDirtyBlockFlushCounter st2 = nDisableDirtyBlockFlushCounter ?st + 1"
    and s: "snd (WriteTile ex_env ex_host_oc ?st) =
              st2\<lparr>m_bInWriteTile := False,
                   nDisableDirtyBlockFlushCounter := nDisableDirtyBlockFlushCounter ?st\<rparr>"
    by blast
  have 3: "fst (WriteTile ex_env ex_host_oc ?st) = CE_None"
    "upserts (snd (WriteTile ex_env ex_host_oc ?st)) = 1"
    "m_pabyCachedTiles (snd (WriteTile ex_env ex_host_oc ?st)) = replicate 32 (Fin 7)"
    by code_simp+
  have 4: "nDisableDirtyBlockFlushCounter
     (snd (WriteTileInternal ex_env ex_host_oc
        (?st\<lparr>nDisableDirtyBlockFlushCounter := 1, m_bInWriteTile := True\<rparr>))) = 1"
    using i c by (simp add: n)
  have 5: "nDisableDirtyBlockFlushCounter (snd (WriteTile ex_env ex_host_oc ?st)) = 0"
    by (simp add: s n)
  show ?thesis by (intro conjI 1 2 3 4 5)
qed

text \<open>
  Claim C4, as amended. When no band of slot 0 is dirty, \<^verbatim>\<open>WriteTileInternal\<close>
  returns \<^verbatim>\<open>CE_None\<close> and \<^verbatim>\<open>WriteTile\<close> leaves the state, with its store, log and
  cache, as it is; \<^verbatim>\<open>WriteTile\<close> returns \<^verbatim>\<open>CE_None\<close> unless the insertion counter is
  negative or a write is in progress, in which case it returns \<^verbatim>\<open>CE_Failure\<close>.
\<close>

theorem WriteTile_nothing_dirty:
  assumes "bAllNonDirty env st"
  shows "WriteTileInternal env oc st = (CE_None, st) \<and>
         WriteTile env oc st =
           (if m_nTileInsertionCount st < 0 \<or> m_bInWriteTile st then CE_Failure else CE_None, st)"
proof -
  have i: "\<And>s. bAllNonDirty env s \<Longrightarrow> WriteTileInternal env oc s = (CE_None, s)"
    by (simp add: WriteTileInternal_def Let_def)
  let ?st1 = "st\<lparr>nDisableDirtyBlockFlushCounter := nDisableDirtyBlockFlushCounter st + 1,
                   m_bInWriteTile := True\<rparr>"
  have "bAllNonDirty env ?st1" using assms by (simp add: bAllNonDirty_def)
  then have "WriteTileInternal env oc ?st1 = (CE_None, ?st1)" by (rule i)
  moreover have "\<not> m_bInWriteTile st \<Longrightarrow>
     ?st1\<lparr>m_bInWriteTile := False,
          nDisableDirtyBlockFlushCounter := nDisableDirtyBlockFlushCounter ?st1 - 1\<rparr> = st"
    by (cases st) simp
  ultimately show ?thesis using i [OF assms] by (simp add: WriteTile_eq Let_def)
qed

text \<open>
  Slot 0 of the small dataset holds tile (0, 0) at index 0 of the cache with no
  band dirty, so the test of the dirty flags is what ends the write; with the band
  dirty the same call stores the tile.
\<close>

theorem WriteTile_nothing_dirty_witness:
  "WriteTileInternal ex_env ex_oc ex_clean_state = (CE_None, ex_clean_state) \<and>
   WriteTile ex_env ex_oc ex_clean_state = (CE_None, ex_clean_state) \<and>
   nRow (m_asCachedTilesDesc ex_clean_state ! 0) = 0 \<and>
   nCol (m_asCachedTilesDesc ex_clean_state ! 0) = 0 \<and>
   nIdxWithinTileData (m_asCachedTilesDesc ex_clean_state ! 0) = 0 \<and>
   upserts (snd (WriteTile ex_env ex_oc
                   (ex_clean_state\<lparr>m_asCachedTilesDesc := ex_dirty_slots\<rparr>))) = 1"
proof -
  have a: "bAllNonDirty ex_env ex_clean_state" by code_simp
  have b: "\<not> (m_nTileInsertionCount ex_clean_state < 0 \<or> m_bInWriteTile ex_clean_state)"
    by code_simp
  have c: "nRow (m_asCachedTilesDesc ex_clean_state ! 0) = 0"
    "nCol (m_asCachedTilesDesc ex_clean_state ! 0) = 0"
    "nIdxWithinTileData (m_asCachedTilesDesc ex_clean_state ! 0) = 0"
    "upserts (snd (WriteTile ex_env ex_oc
                     (ex_clean_state\<lparr>m_asCachedTilesDesc := ex_dirty_slots\<rparr>))) = 1"
    by code_simp+
  show ?thesis using WriteTile_nothing_dirty [OF a, of ex_oc] b c by simp
qed

text \<open>
  The claim as stated fails for \<^verbatim>\<open>WriteTile\<close> on a poisoned batcher: nothing is dirty,
  and the call does not return success.
\<close>

theorem WriteTile_nothing_dirty_counterexample:
  "bAllNonDirty ex_env (ex_clean_state\<lparr>m_nTileInsertionCount := - 1\<rparr>) \<and>
   fst (WriteTile ex_env ex_oc (ex_clean_state\<lparr>m_nTileInsertionCount := - 1\<rparr>)) \<noteq> CE_None"
  by code_simp


section \<open>Empty tiles\<close>

lemma list_all_upt_first: "list_all P [0..<n] \<Longrightarrow> 0 < n \<Longrightarrow> P 0"
  by (simp add: list_all_iff)


lemma dirty_frame [simp]:
  "bAllDirty env (st\<lparr>nDisableDirtyBlockFlushCounter := a, m_bInWriteTile := b\<rparr>) = bAllDirty env st"
  "bAllNonDirty env (st\<lparr>nDisableDirtyBlockFlushCounter := a, m_bInWriteTile := b\<rparr>) = bAllNonDirty env st"
  by (simp_all add: bAllDirty_def bAllNonDirty_def)














section \<open>Quantization\<close>

text \<open>
  Claim C8 at a tile for which the code breaks it. One \<^verbatim>\<open>GInt16\<close> sample of value -5,
  no no-data value, global offset 0 and scale 1: \<^verbatim>\<open>dfGlobalMin\<close> is negative, line 1507
  sets \<^verbatim>\<open>dfTileOffset\<close> to its opposite, 5, and the sample is encoded as
  (-5 - 5) / 1 = -10, for which the assertion of line 1536 fails: no value in
  [0, 65535] is stored for this valid sample.
\<close>

theorem ProcessInt16UInt16Tile_negative_minimum:
  "ProcessInt16UInt16Tile [- 5] True False (Fin 0) 65535 0 1 =
     \<lparr>pTempTileBuffer = [None], dfTileOffset = 5, dfTileScale = 1,
      dfTileMin = - 5, dfTileMax = - 5, nValidPixels = 1\<rparr>"
  by (simp add: ProcessInt16UInt16Tile_def minmax_step_def is_nodata_def tile_offset_scale_def
        encode_sample_def Let_def)

section \<open>Partial flush of the temporary database\<close>



lemma tempdb_DecoderColorTable [simp]:
  "m_hTempDB (DecoderColorTable env oc b e st) = m_hTempDB st"
  using quiet_DecoderColorTable [of st env oc b e] by (simp add: quiet_def frame_eq_def)

lemma tempdb_MergePersistedTile [simp]:
  "m_hTempDB (MergePersistedTile env oc p st) = m_hTempDB st"
  by (simp add: MergePersistedTile_def Let_def GetTileOffsetAndScale_def split_beta sql_def
      split: option.splits)







end
